theory Spec2Isabelle
  imports Main
begin

section \<open>JavaScript values\<close>

text \<open>
  Request parameters and platform responses are JavaScript objects. An object is the list
  of its own properties in enumeration order (the order of \<open>Object.keys\<close>), with distinct
  keys; a property that is absent reads as \<open>undefined\<close>. Numbers are integers: the service
  passes them on and tests them for zero, nothing more. Strings are byte strings, and equal
  to the source's strings wherever these are ASCII.
\<close>

datatype jsval =
    JUndefined
  | JNull
  | JBool bool
  | JNum int
  | JStr string
  | JArr "jsval list"
  | JObj "(string \<times> jsval) list"

type_synonym obj = "(string \<times> jsval) list"

text \<open>Truthiness, as \<open>if (v)\<close>, \<open>v && ...\<close> and \<open>v || ...\<close> test it.\<close>

fun truthy :: "jsval \<Rightarrow> bool" where
  "truthy JUndefined = False"
| "truthy JNull = False"
| "truthy (JBool b) = b"
| "truthy (JNum n) = (n \<noteq> 0)"
| "truthy (JStr s) = (s \<noteq> [])"
| "truthy (JArr xs) = True"
| "truthy (JObj ps) = True"

text \<open>An optional string (\<open>string | undefined\<close>) is truthy when present and not empty.\<close>

fun truthy_str :: "string option \<Rightarrow> bool" where
  "truthy_str None = False"
| "truthy_str (Some s) = (s \<noteq> [])"

definition obj_get :: "obj \<Rightarrow> string \<Rightarrow> jsval" where
  "obj_get ob k = (case map_of ob k of None \<Rightarrow> JUndefined | Some v \<Rightarrow> v)"

text \<open>Assignment \<open>ob[k] = v\<close>: an existing property keeps its place, a new one goes last.\<close>

fun obj_set :: "obj \<Rightarrow> string \<Rightarrow> jsval \<Rightarrow> obj" where
  "obj_set [] k v = [(k, v)]"
| "obj_set ((k', v') # rest) k v =
     (if k' = k then (k, v) # rest else (k', v') # obj_set rest k v)"

text \<open>
  Reading a property that is no builtin (\<open>VpcId\<close>, \<open>SubnetId\<close>) from a value that is
  neither \<open>undefined\<close> nor \<open>null\<close>: only an object can have it. On \<open>undefined\<close> and
  \<open>null\<close> JavaScript raises a TypeError; the callers below test for them first.
\<close>

fun js_prop :: "jsval \<Rightarrow> string \<Rightarrow> jsval" where
  "js_prop (JObj ps) k = obj_get ps k"
| "js_prop v k = JUndefined"

text \<open>
  Strict equality \<open>a === b\<close> between values that come from two different parsed
  responses: primitives compare by type and value, arrays and objects by identity, and two
  values parsed separately are never the same array or object.
\<close>

fun strict_eq :: "jsval \<Rightarrow> jsval \<Rightarrow> bool" where
  "strict_eq (JArr xs) b = False"
| "strict_eq (JObj ps) b = False"
| "strict_eq a b = (a = b)"

fun join :: "string \<Rightarrow> string list \<Rightarrow> string" where
  "join sep [] = []"
| "join sep [x] = x"
| "join sep (x # y # ys) = x @ sep @ join sep (y # ys)"

section \<open>Errors\<close>

text \<open>
  Every error value the code inspects is read through \<open>message\<close>, \<open>code\<close> and
  \<open>requestId\<close> only; \<open>CloudBaseError\<close> (module \<open>../error\<close>) carries the last two as
  options of its constructor, and an error of the JavaScript runtime (a TypeError) has
  neither. The only TypeError of the model is raised and caught inside
  \<open>getFunctionDetail\<close>, where its message is not looked at.
\<close>

record CloudBaseError =
  message :: string
  code :: "string option"
  requestId :: "string option"

definition newCloudBaseError :: "string \<Rightarrow> CloudBaseError" where
  "newCloudBaseError msg = \<lparr>message = msg, code = None, requestId = None\<rparr>"

definition TypeError :: CloudBaseError where
  "TypeError = \<lparr>message = ''TypeError'', code = None, requestId = None\<rparr>"

text \<open>
  The message literals of the source that are not ASCII, as their UTF-8 bytes:
  the CodeSecret format message, "function does not exist!", the full-width colon,
  " deployment failed:" followed by a line feed, " function code update failed: " and the
  two halves of the unsupported-trigger message.
\<close>

definition msg_codeSecret_format :: string where
  "msg_codeSecret_format =
     ''CodeSecret '' @ [CHR 0xE6, CHR 0xA0, CHR 0xBC, CHR 0xE5, CHR 0xBC, CHR 0x8F, CHR 0xE9,
       CHR 0x94, CHR 0x99, CHR 0xE8, CHR 0xAF, CHR 0xAF, CHR 0xEF, CHR 0xBC, CHR 0x8C]
     @ ''CodeSecret '' @ [CHR 0xE5, CHR 0x8F, CHR 0xAA, CHR 0xE8, CHR 0x83, CHR 0xBD, CHR 0xE5,
       CHR 0x8C, CHR 0x85, CHR 0xE5, CHR 0x90, CHR 0xAB]
     @ '' 1-160 '' @ [CHR 0xE4, CHR 0xBD, CHR 0x8D, CHR 0xE5, CHR 0xA4, CHR 0xA7, CHR 0xE5,
       CHR 0xB0, CHR 0x8F, CHR 0xE5, CHR 0xAD, CHR 0x97, CHR 0xE6, CHR 0xAF, CHR 0x8D, CHR 0xE3,
       CHR 0x80, CHR 0x81, CHR 0xE6, CHR 0x95, CHR 0xB0, CHR 0xE5, CHR 0xAD, CHR 0x97, CHR 0xE3,
       CHR 0x80, CHR 0x81]
     @ [CHR 0x22] @ ''+'' @ [CHR 0x22, CHR 0xE3, CHR 0x80, CHR 0x81, CHR 0x22] @ ''=''
     @ [CHR 0x22, CHR 0xE3, CHR 0x80, CHR 0x81, CHR 0x22] @ ''/'' @ [CHR 0x22]"

definition msg_not_exist :: string where
  "msg_not_exist =
     [CHR 0xE5, CHR 0x87, CHR 0xBD, CHR 0xE6, CHR 0x95, CHR 0xB0, CHR 0xE4, CHR 0xB8, CHR 0x8D,
      CHR 0xE5, CHR 0xAD, CHR 0x98, CHR 0xE5, CHR 0x9C, CHR 0xA8, CHR 0xEF, CHR 0xBC, CHR 0x81]"

definition fullwidth_colon :: string where
  "fullwidth_colon = [CHR 0xEF, CHR 0xBC, CHR 0x9A]"

definition msg_deploy_failed :: string where
  "msg_deploy_failed =
     '' '' @ [CHR 0xE9, CHR 0x83, CHR 0xA8, CHR 0xE7, CHR 0xBD, CHR 0xB2, CHR 0xE5, CHR 0xA4,
       CHR 0xB1, CHR 0xE8, CHR 0xB4, CHR 0xA5, CHR 0xEF, CHR 0xBC, CHR 0x9A, CHR 0x0A]"

definition msg_code_update_failed :: string where
  "msg_code_update_failed =
     '' '' @ [CHR 0xE5, CHR 0x87, CHR 0xBD, CHR 0xE6, CHR 0x95, CHR 0xB0, CHR 0xE4, CHR 0xBB,
       CHR 0xA3, CHR 0xE7, CHR 0xA0, CHR 0x81, CHR 0xE6, CHR 0x9B, CHR 0xB4, CHR 0xE6, CHR 0x96,
       CHR 0xB0, CHR 0xE5, CHR 0xA4, CHR 0xB1, CHR 0xE8, CHR 0xB4, CHR 0xA5, CHR 0xEF, CHR 0xBC,
       CHR 0x9A] @ '' ''"

definition msg_trigger_unsupported_1 :: string where
  "msg_trigger_unsupported_1 =
     [CHR 0xE4, CHR 0xB8, CHR 0x8D, CHR 0xE6, CHR 0x94, CHR 0xAF, CHR 0xE6, CHR 0x8C, CHR 0x81,
      CHR 0xE7, CHR 0x9A, CHR 0x84, CHR 0xE8, CHR 0xA7, CHR 0xA6, CHR 0xE5, CHR 0x8F, CHR 0x91,
      CHR 0xE5, CHR 0x99, CHR 0xA8, CHR 0xE7, CHR 0xB1, CHR 0xBB, CHR 0xE5, CHR 0x9E, CHR 0x8B]
     @ '' [''"

definition msg_trigger_unsupported_2 :: string where
  "msg_trigger_unsupported_2 =
     '']'' @ [CHR 0xEF, CHR 0xBC, CHR 0x8C, CHR 0xE7, CHR 0x9B, CHR 0xAE, CHR 0xE5, CHR 0x89,
       CHR 0x8D, CHR 0xE4, CHR 0xBB, CHR 0x85, CHR 0xE6, CHR 0x94, CHR 0xAF, CHR 0xE6, CHR 0x8C,
       CHR 0x81, CHR 0xE5, CHR 0xAE, CHR 0x9A, CHR 0xE6, CHR 0x97, CHR 0xB6, CHR 0xE8, CHR 0xA7,
       CHR 0xA6, CHR 0xE5, CHR 0x8F, CHR 0x91, CHR 0xE5, CHR 0x99, CHR 0xA8, CHR 0xEF, CHR 0xBC,
       CHR 0x88] @ ''timer'' @ [CHR 0xEF, CHR 0xBC, CHR 0x89, CHR 0xEF, CHR 0xBC, CHR 0x81]"

section \<open>The function specification and the call parameters\<close>

record IFunctionVPC =
  subnetId :: string
  vpcId :: string

record ICloudFunctionTrigger =
  trigger_name :: string
  trigger_type :: string
  trigger_config :: string

text \<open>\<open>ignore?: string | string[]\<close>\<close>

datatype ignore_spec = IgnoreString string | IgnoreList "string list"

text \<open>
  \<open>ICloudFunction\<close>, with the two fields \<open>l5\<close> and \<open>layers\<close> that the service reads
  beside the declared ones. An optional field that is left out is \<open>None\<close>. The values of
  \<open>envVariables\<close> (string, number or boolean) and the layer descriptions are passed on
  as they are.
\<close>

record ICloudFunction =
  name :: string
  timeout :: "int option"
  envVariables :: "obj option"
  runtime :: "string option"
  vpc :: "IFunctionVPC option"
  installDependency :: "bool option"
  triggers :: "ICloudFunctionTrigger list option"
  handler :: "string option"
  ignore :: "ignore_spec option"
  isWaitInstall :: "bool option"
  l5 :: "bool option"
  layers :: "jsval list option"

record ICreateFunctionParam =
  func :: ICloudFunction
  functionRootPath :: string
  force :: bool
  base64Code :: "string option"
  codeSecret :: "string option"

record IUpdateFunctionCodeParam =
  u_func :: ICloudFunction
  u_functionRootPath :: "string option"
  u_base64Code :: "string option"
  u_codeSecret :: "string option"

record IUpdateFunctionIncrementalCodeParam =
  i_func :: ICloudFunction
  i_functionRootPath :: string
  i_deleteFiles :: "string list option"
  i_addFiles :: "string option"

record ICreateFunctionRes =
  triggerRes :: "obj option"
  configRes :: obj
  codeRes :: obj

text \<open>\<open>Promise<IResponseInfo | ICreateFunctionRes>\<close>\<close>

datatype create_result = ResponseInfo obj | CreateFunctionRes ICreateFunctionRes

section \<open>The world outside: platform, packer, clock\<close>

datatype service = ScfService | VpcService

datatype CodeType = File | JavaFile

text \<open>
  Everything the service does to the outside is an event, kept in the order it happens:
  a request to one of the two platform services with its action, its parameters and the
  outcome; a \<open>sleep\<close> with its milliseconds; a run of the packer
  (\<open>new FunctionPacker(root, name, ignore, incrementalPath).build(type)\<close>) with its
  outcome.
\<close>

datatype event =
    Request service string obj "CloudBaseError + obj"
  | Sleep nat
  | Build "string option" string "string list" "string option" CodeType
      "CloudBaseError + string option"

type_synonym world = "event list"

text \<open>
  The transport (\<open>CloudService.request\<close>, declared in \<open>cloud-api-request.d.ts\<close>) and the
  packer (module \<open>./packer\<close>) are used by the service and implemented elsewhere: the
  environment gives their outcome as a function of the call and of everything that happened
  before it. It also holds the namespace that \<open>getFunctionConfig\<close> reads from the resolved
  environment configuration, the two entries of the table \<open>SCF_STATUS\<close> (module
  \<open>../constant\<close>) that the service compares with, and the builtin \<open>JSON.stringify\<close>.

  Every public operation carries the decorator \<open>@preLazy()\<close> (module \<open>../utils\<close>), which
  sees to it that the environment configuration is resolved before the body runs. The
  operations below are the bodies: they start from a resolved environment.
\<close>

record environment =
  namespace :: string
  remote :: "world \<Rightarrow> service \<Rightarrow> string \<Rightarrow> obj \<Rightarrow> CloudBaseError + obj"
  packer :: "world \<Rightarrow> string option \<Rightarrow> string \<Rightarrow> string list \<Rightarrow> string option \<Rightarrow> CodeType
               \<Rightarrow> CloudBaseError + string option"
  stringify :: "jsval \<Rightarrow> string"
  SCF_STATUS_CREATING :: string
  SCF_STATUS_UPDATING :: string

definition request ::
  "environment \<Rightarrow> service \<Rightarrow> string \<Rightarrow> obj \<Rightarrow> world \<Rightarrow> (CloudBaseError + obj) \<times> world" where
  "request env svc action params w =
     (let r = remote env w svc action params in (r, w @ [Request svc action params r]))"

definition sleep :: "nat \<Rightarrow> world \<Rightarrow> world" where
  "sleep ms w = w @ [Sleep ms]"

definition build ::
  "environment \<Rightarrow> string option \<Rightarrow> string \<Rightarrow> string list \<Rightarrow> string option \<Rightarrow> CodeType \<Rightarrow> world
     \<Rightarrow> (CloudBaseError + string option) \<times> world" where
  "build env root fname ign add ty w =
     (let r = packer env w root fname ign add ty in (r, w @ [Build root fname ign add ty r]))"

section \<open>Validation (\<open>validCreateParams\<close>)\<close>

definition secretChars :: string where
  "secretChars = ''ABCDEFGHIJKLMNOPQRSTUVWXYZabcdefghijklmnopqrstuvwxyz0123456789+=/''"

text \<open>\<open>/^[A-Za-z0-9+=/]{1,160}$/.test(s)\<close>\<close>

definition codeSecret_test :: "string \<Rightarrow> bool" where
  "codeSecret_test s = (1 \<le> length s \<and> length s \<le> 160 \<and> list_all (\<lambda>c. c \<in> set secretChars) s)"

definition validRuntime :: "string list" where
  "validRuntime = [''Nodejs8.9'', ''Php7'', ''Java8'']"

definition validCreateParams :: "ICloudFunction \<Rightarrow> string option \<Rightarrow> CloudBaseError + unit" where
  "validCreateParams f secret =
     (case (case secret of
              Some s \<Rightarrow> if s \<noteq> [] \<and> \<not> codeSecret_test s
                        then Some (newCloudBaseError msg_codeSecret_format) else None
            | None \<Rightarrow> None) of
        Some e \<Rightarrow> Inl e
      | None \<Rightarrow>
         (case runtime f of
            Some r \<Rightarrow>
              if r \<noteq> [] \<and> r \<notin> set validRuntime
              then Inl (newCloudBaseError
                     (name f @ '' Invalid runtime value'' @ fullwidth_colon @ r
                        @ ''. Now only support: '' @ join '', '' validRuntime))
              else Inr ()
          | None \<Rightarrow> Inr ()))"

section \<open>Packaging\<close>

text \<open>
  The effective \<open>installDependency\<close>: \<open>TRUE\<close> by default for Nodejs8.9, and whatever
  the function specification says when it says something.
\<close>

definition installDependencyOf :: "ICloudFunction \<Rightarrow> string" where
  "installDependencyOf f =
     (case installDependency f of
        None \<Rightarrow> if runtime f = Some ''Nodejs8.9'' then ''TRUE'' else ''FALSE''
      | Some b \<Rightarrow> if b then ''TRUE'' else ''FALSE'')"

text \<open>
  \<open>[...(func.ignore || [])]\<close>: a list is copied; a string is spread into its characters
  (the empty string, being falsy, into none).
\<close>

fun spread_ignore :: "ignore_spec option \<Rightarrow> string list" where
  "spread_ignore None = []"
| "spread_ignore (Some (IgnoreString s)) = map (\<lambda>c. [c]) s"
| "spread_ignore (Some (IgnoreList xs)) = xs"

definition codeTypeOf :: "ICloudFunction \<Rightarrow> CodeType" where
  "codeTypeOf f = (if runtime f = Some ''Java8'' then JavaFile else File)"

definition ignoreOf :: "ICloudFunction \<Rightarrow> string list" where
  "ignoreOf f =
     (if installDependencyOf f = ''TRUE''
      then [''node_modules/**/*'', ''node_modules''] @ spread_ignore (ignore f)
      else spread_ignore (ignore f))"

text \<open>
  The block "read from the local directory" of \<open>createFunction\<close> and of
  \<open>updateFunctionCode\<close> (the same text in both): without a \<open>base64Code\<close> the packer
  runs, and a falsy artifact is the error "function does not exist".
\<close>

definition packageCode ::
  "environment \<Rightarrow> ICloudFunction \<Rightarrow> string option \<Rightarrow> string option \<Rightarrow> world
     \<Rightarrow> (CloudBaseError + string) \<times> world" where
  "packageCode env f root b64 w =
     (case (if truthy_str b64 then b64 else None) of
        Some given \<Rightarrow> (Inr given, w)
      | None \<Rightarrow>
         (case build env root (name f) (ignoreOf f) None (codeTypeOf f) w of
            (Inl e, w1) \<Rightarrow> (Inl e, w1)
          | (Inr built, w1) \<Rightarrow>
              (case (if truthy_str built then built else None) of
                 None \<Rightarrow> (Inl (newCloudBaseError msg_not_exist), w1)
               | Some base64 \<Rightarrow> (Inr base64, w1))))"

section \<open>Request parameters\<close>

definition or_default :: "string option \<Rightarrow> string \<Rightarrow> string" where
  "or_default s d = (case s of None \<Rightarrow> d | Some x \<Rightarrow> if x = [] then d else x)"

text \<open>
  \<open>Object.keys(func.envVariables || {}).map(key => ({Key: key, Value: func.envVariables[key]}))\<close>
\<close>

definition envVariablesOf :: "ICloudFunction \<Rightarrow> jsval list" where
  "envVariablesOf f =
     (let ev = (case envVariables f of None \<Rightarrow> [] | Some ev \<Rightarrow> ev)
      in map (\<lambda>key. JObj [(''Key'', JStr key), (''Value'', obj_get ev key)]) (map fst ev))"

definition l5EnableOf :: "ICloudFunction \<Rightarrow> jsval" where
  "l5EnableOf f = (case l5 f of None \<Rightarrow> JNull | Some b \<Rightarrow> JStr (if b then ''TRUE'' else ''FALSE''))"

definition vpcSubnetIdOf :: "ICloudFunction \<Rightarrow> string" where
  "vpcSubnetIdOf f = (case vpc f of None \<Rightarrow> [] | Some v \<Rightarrow> subnetId v)"

definition vpcVpcIdOf :: "ICloudFunction \<Rightarrow> string" where
  "vpcVpcIdOf f = (case vpc f of None \<Rightarrow> [] | Some v \<Rightarrow> vpcId v)"

definition vpcConfigOf :: "ICloudFunction \<Rightarrow> jsval" where
  "vpcConfigOf f = JObj [(''SubnetId'', JStr (vpcSubnetIdOf f)), (''VpcId'', JStr (vpcVpcIdOf f))]"

text \<open>The parameters of the \<open>CreateFunction\<close> request, as \<open>createFunction\<close> builds them.\<close>

definition createFunction_params ::
  "environment \<Rightarrow> ICloudFunction \<Rightarrow> string \<Rightarrow> string option \<Rightarrow> obj" where
  "createFunction_params env f base64 secret =
     (let p = [(''FunctionName'', JStr (name f)),
               (''Namespace'', JStr (namespace env)),
               (''Code'', JObj [(''ZipFile'', JStr base64)]),
               (''MemorySize'', JNum 256),
               (''Role'', JStr ''TCB_QcsRole''),
               (''Stamp'', JStr ''MINI_QCBASE''),
               (''L5Enable'', l5EnableOf f)];
          p = (if envVariablesOf f \<noteq> []
               then obj_set p ''Environment'' (JObj [(''Variables'', JArr (envVariablesOf f))])
               else p);
          p = obj_set p ''Handler'' (JStr (or_default (handler f) ''index.main''));
          p = obj_set p ''Timeout''
                (JNum (case timeout f of None \<Rightarrow> 20 | Some t \<Rightarrow> if t = 0 then 20 else t));
          p = obj_set p ''Runtime'' (JStr (or_default (runtime f) ''Nodejs8.9''));
          p = obj_set p ''VpcConfig'' (vpcConfigOf f);
          p = obj_set p ''InstallDependency'' (JStr (installDependencyOf f));
          p = (case secret of
                 Some s \<Rightarrow> if s \<noteq> [] then obj_set p ''CodeSecret'' (JStr s) else p
               | None \<Rightarrow> p);
          p = obj_set p ''EipConfig''
                (JObj [(''EipFixed'',
                   JStr (if vpcSubnetIdOf f \<noteq> [] \<and> vpcVpcIdOf f \<noteq> [] then ''TRUE'' else ''FALSE''))]);
          p = (case layers f of
                 Some ls \<Rightarrow> if ls \<noteq> [] then obj_set p ''Layers'' (JArr ls) else p
               | None \<Rightarrow> p)
      in p)"

text \<open>The parameters of the \<open>UpdateFunctionConfiguration\<close> request.\<close>

definition updateFunctionConfig_params :: "environment \<Rightarrow> ICloudFunction \<Rightarrow> obj" where
  "updateFunctionConfig_params env f =
     (let p = [(''FunctionName'', JStr (name f)),
               (''Namespace'', JStr (namespace env)),
               (''L5Enable'', l5EnableOf f)];
          p = (if envVariablesOf f \<noteq> []
               then obj_set p ''Environment'' (JObj [(''Variables'', JArr (envVariablesOf f))])
               else p);
          p = (case timeout f of
                 Some t \<Rightarrow> if t \<noteq> 0 then obj_set p ''Timeout'' (JNum t) else p
               | None \<Rightarrow> p);
          p = (case runtime f of
                 Some r \<Rightarrow> if r \<noteq> [] then obj_set p ''Runtime'' (JStr r) else p
               | None \<Rightarrow> p);
          p = obj_set p ''VpcConfig'' (vpcConfigOf f);
          p = (if runtime f = Some ''Nodejs8.9''
               then obj_set p ''InstallDependency'' (JStr ''TRUE'') else p);
          p = (case installDependency f of
                 Some b \<Rightarrow> obj_set p ''InstallDependency'' (JStr (if b then ''TRUE'' else ''FALSE''))
               | None \<Rightarrow> p);
          p = (case layers f of
                 Some ls \<Rightarrow> if ls \<noteq> [] then obj_set p ''Layers'' (JArr ls) else p
               | None \<Rightarrow> p)
      in p)"

text \<open>The parameters of the \<open>UpdateFunctionCode\<close> request.\<close>

definition updateFunctionCode_params ::
  "environment \<Rightarrow> ICloudFunction \<Rightarrow> string \<Rightarrow> string option \<Rightarrow> obj" where
  "updateFunctionCode_params env f base64 secret =
     (let p = [(''FunctionName'', JStr (name f)),
               (''Namespace'', JStr (namespace env)),
               (''ZipFile'', JStr base64),
               (''Handler'', JStr (or_default (handler f) ''index.main'')),
               (''InstallDependency'', JStr (installDependencyOf f))];
          p = (case secret of
                 Some s \<Rightarrow> if s \<noteq> [] then obj_set p ''CodeSecret'' (JStr s) else p
               | None \<Rightarrow> p)
      in p)"

section \<open>The operations of \<open>FunctionService\<close>\<close>

subsection \<open>\<open>createFunctionTriggers\<close>\<close>

definition createFunctionTriggers ::
  "environment \<Rightarrow> string \<Rightarrow> ICloudFunctionTrigger list option \<Rightarrow> world
     \<Rightarrow> (CloudBaseError + obj option) \<times> world" where
  "createFunctionTriggers env fname trigs w =
     (let ts = (case trigs of None \<Rightarrow> [] | Some ts \<Rightarrow> ts)
      in if ts = [] then (Inr None, w)
         else
           (case find (\<lambda>item. trigger_type item \<noteq> ''timer'') ts of
              Some item \<Rightarrow>
                (Inl (newCloudBaseError
                   (msg_trigger_unsupported_1 @ trigger_type item @ msg_trigger_unsupported_2)), w)
            | None \<Rightarrow>
                (let parsedTriggers =
                       map (\<lambda>item. JObj [(''TriggerName'', JStr (trigger_name item)),
                                          (''Type'', JStr (trigger_type item)),
                                          (''TriggerDesc'', JStr (trigger_config item))]) ts
                 in case request env ScfService ''BatchCreateTrigger''
                           [(''FunctionName'', JStr fname),
                            (''Namespace'', JStr (namespace env)),
                            (''Triggers'', JStr (stringify env (JArr parsedTriggers))),
                            (''Count'', JNum (int (length parsedTriggers)))] w of
                      (Inl e, w1) \<Rightarrow> (Inl e, w1)
                    | (Inr res, w1) \<Rightarrow> (Inr (Some res), w1))))"

subsection \<open>\<open>updateFunctionConfig\<close>\<close>

definition updateFunctionConfig ::
  "environment \<Rightarrow> ICloudFunction \<Rightarrow> world \<Rightarrow> (CloudBaseError + obj) \<times> world" where
  "updateFunctionConfig env f w =
     request env ScfService ''UpdateFunctionConfiguration'' (updateFunctionConfig_params env f) w"

subsection \<open>\<open>getFunctionDetail\<close>\<close>

definition validKeys :: "string list" where
  "validKeys = [''Status'', ''CodeInfo'', ''CodeSize'', ''Environment'', ''FunctionName'',
     ''Handler'', ''MemorySize'', ''ModTime'', ''Namespace'', ''Runtime'', ''Timeout'',
     ''Triggers'', ''VpcConfig'']"

definition getVpcs :: "environment \<Rightarrow> world \<Rightarrow> (CloudBaseError + jsval) \<times> world" where
  "getVpcs env w =
     (case request env VpcService ''DescribeVpcs'' [] w of
        (Inl e, w1) \<Rightarrow> (Inl e, w1)
      | (Inr res, w1) \<Rightarrow> (Inr (obj_get res ''VpcSet''), w1))"

definition getSubnets :: "environment \<Rightarrow> jsval \<Rightarrow> world \<Rightarrow> (CloudBaseError + jsval) \<times> world" where
  "getSubnets env vpcIdArg w =
     (case request env VpcService ''DescribeSubnets''
             [(''Filters'', JArr [JObj [(''Name'', JStr ''vpc-id''), (''Values'', JArr [vpcIdArg])]])] w of
        (Inl e, w1) \<Rightarrow> (Inl e, w1)
      | (Inr res, w1) \<Rightarrow> (Inr (obj_get res ''SubnetSet''), w1))"

text \<open>
  \<open>xs.find(item => item[k] === v)\<close>: a TypeError when \<open>xs\<close> is no array, or when an item
  reached by the search is \<open>undefined\<close> or \<open>null\<close>; \<open>undefined\<close> when nothing matches.
\<close>

fun find_item :: "jsval list \<Rightarrow> string \<Rightarrow> jsval \<Rightarrow> CloudBaseError + jsval" where
  "find_item [] k v = Inr JUndefined"
| "find_item (item # rest) k v =
     (if item = JUndefined \<or> item = JNull then Inl TypeError
      else if strict_eq (js_prop item k) v then Inr item
      else find_item rest k v)"

definition js_find :: "jsval \<Rightarrow> string \<Rightarrow> jsval \<Rightarrow> CloudBaseError + jsval" where
  "js_find xs k v = (case xs of JArr items \<Rightarrow> find_item items k v | _ \<Rightarrow> Inl TypeError)"

text \<open>The body of the \<open>try\<close> in \<open>getFunctionDetail\<close>: the new value of \<open>VpcConfig\<close>.\<close>

definition lookupVpc ::
  "environment \<Rightarrow> jsval \<Rightarrow> jsval \<Rightarrow> world \<Rightarrow> (CloudBaseError + jsval) \<times> world" where
  "lookupVpc env VpcId SubnetId w =
     (case getVpcs env w of
        (Inl e, w1) \<Rightarrow> (Inl e, w1)
      | (Inr vpcs, w1) \<Rightarrow>
         (case getSubnets env VpcId w1 of
            (Inl e, w2) \<Rightarrow> (Inl e, w2)
          | (Inr subnets, w2) \<Rightarrow>
             (case js_find vpcs ''VpcId'' VpcId of
                Inl e \<Rightarrow> (Inl e, w2)
              | Inr vpcItem \<Rightarrow>
                 (case js_find subnets ''SubnetId'' SubnetId of
                    Inl e \<Rightarrow> (Inl e, w2)
                  | Inr subnetItem \<Rightarrow>
                      (Inr (JObj [(''vpc'', vpcItem), (''subnet'', subnetItem)]), w2)))))"

definition getFunctionDetail_params :: "environment \<Rightarrow> string \<Rightarrow> string option \<Rightarrow> obj" where
  "getFunctionDetail_params env fname secret =
     (let p = [(''FunctionName'', JStr fname),
               (''Namespace'', JStr (namespace env)),
               (''ShowCode'', JStr ''TRUE'')]
      in case secret of
           Some s \<Rightarrow> if s \<noteq> [] then obj_set p ''CodeSecret'' (JStr s) else p
         | None \<Rightarrow> p)"

text \<open>\<open>const { VpcId = '', SubnetId = '' } = data.VpcConfig || {}\<close>, one identifier at a time.\<close>

definition vpcField :: "obj \<Rightarrow> string \<Rightarrow> jsval" where
  "vpcField data k =
     (let src = (if truthy (obj_get data ''VpcConfig'') then obj_get data ''VpcConfig'' else JObj [])
      in if js_prop src k = JUndefined then JStr [] else js_prop src k)"

definition getFunctionDetail ::
  "environment \<Rightarrow> string \<Rightarrow> string option \<Rightarrow> world \<Rightarrow> (CloudBaseError + obj) \<times> world" where
  "getFunctionDetail env fname secret w =
     (case request env ScfService ''GetFunction'' (getFunctionDetail_params env fname secret) w of
        (Inl e, w1) \<Rightarrow> (Inl e, w1)
      | (Inr res, w1) \<Rightarrow>
         (let data = filter (\<lambda>kv. fst kv \<in> set validKeys) res;
              VpcId = vpcField data ''VpcId'';
              SubnetId = vpcField data ''SubnetId''
          in if truthy VpcId \<and> truthy SubnetId
             then (case lookupVpc env VpcId SubnetId w1 of
                     (Inr v, w2) \<Rightarrow> (Inr (obj_set data ''VpcConfig'' v), w2)
                   | (Inl e, w2) \<Rightarrow>
                       (Inr (obj_set data ''VPC''
                               (JObj [(''vpc'', JStr []), (''subnet'', JStr [])])), w2))
             else (Inr data, w1)))"

subsection \<open>\<open>waitFunctionActive\<close>\<close>

text \<open>
  The \<open>do ... while\<close> loop has no bound: the model is a partial function, and \<open>None\<close>
  is the run that never leaves the loop.
\<close>

partial_function (option) waitFunctionActive ::
  "environment \<Rightarrow> string \<Rightarrow> world \<Rightarrow> ((CloudBaseError + unit) \<times> world) option" where
  "waitFunctionActive env funcName w =
     (case getFunctionDetail env funcName None w of
        (Inl e, w1) \<Rightarrow> Some (Inl e, w1)
      | (Inr detail, w1) \<Rightarrow>
         (let w2 = sleep 1000 w1;
              status = obj_get detail ''Status''
          in if strict_eq status (JStr (SCF_STATUS_CREATING env))
                \<or> strict_eq status (JStr (SCF_STATUS_UPDATING env))
             then waitFunctionActive env funcName w2
             else Some (Inr (), w2)))"

declare waitFunctionActive.simps [code]

subsection \<open>\<open>updateFunctionCode\<close>\<close>

text \<open>
  The body of the \<open>try\<close>: the request, then the wait, entered on
  \<open>installDependency && func.isWaitInstall === true\<close> where \<open>installDependency\<close> is
  the string computed above.
\<close>

definition updateFunctionCode_try ::
  "environment \<Rightarrow> ICloudFunction \<Rightarrow> obj \<Rightarrow> world \<Rightarrow> ((CloudBaseError + obj) \<times> world) option" where
  "updateFunctionCode_try env f params w =
     (case request env ScfService ''UpdateFunctionCode'' params w of
        (Inl e, w1) \<Rightarrow> Some (Inl e, w1)
      | (Inr res, w1) \<Rightarrow>
          if truthy (JStr (installDependencyOf f)) \<and> isWaitInstall f = Some True
          then (case waitFunctionActive env (name f) w1 of
                  None \<Rightarrow> None
                | Some (Inl e, w2) \<Rightarrow> Some (Inl e, w2)
                | Some (Inr u, w2) \<Rightarrow> Some (Inr res, w2))
          else Some (Inr res, w1))"

definition updateFunctionCode ::
  "environment \<Rightarrow> IUpdateFunctionCodeParam \<Rightarrow> world \<Rightarrow> ((CloudBaseError + obj) \<times> world) option" where
  "updateFunctionCode env funcParam w =
     (let f = u_func funcParam
      in case validCreateParams f None of
           Inl e \<Rightarrow> Some (Inl e, w)
         | Inr u \<Rightarrow>
            (case packageCode env f (u_functionRootPath funcParam) (u_base64Code funcParam) w of
               (Inl e, w1) \<Rightarrow> Some (Inl e, w1)
             | (Inr base64, w1) \<Rightarrow>
                (case updateFunctionCode_try env f
                        (updateFunctionCode_params env f base64 (u_codeSecret funcParam)) w1 of
                   None \<Rightarrow> None
                 | Some (Inl e, w2) \<Rightarrow>
                     Some (Inl \<lparr>message = ''['' @ name f @ '']'' @ msg_code_update_failed @ message e,
                                code = code e, requestId = None\<rparr>, w2)
                 | Some (Inr res, w2) \<Rightarrow> Some (Inr res, w2))))"

subsection \<open>\<open>updateFunctionIncrementalCode\<close>\<close>

definition updateFunctionIncrementalCode ::
  "environment \<Rightarrow> IUpdateFunctionIncrementalCodeParam \<Rightarrow> world
     \<Rightarrow> (CloudBaseError + obj) \<times> world" where
  "updateFunctionIncrementalCode env funcParam w =
     (let f = i_func funcParam;
          p = [(''FunctionName'', JStr (name f)), (''Namespace'', JStr (namespace env))]
      in case validCreateParams f None of
           Inl e \<Rightarrow> (Inl e, w)
         | Inr u \<Rightarrow>
            (let p = (case i_deleteFiles funcParam of
                        Some ds \<Rightarrow> obj_set p ''DeleteFiles'' (JArr (map JStr ds))
                      | None \<Rightarrow> p)
             in case (if truthy_str (i_addFiles funcParam) then i_addFiles funcParam else None) of
                  None \<Rightarrow> request env ScfService ''UpdateFunctionIncrementalCode'' p w
                | Some addFiles \<Rightarrow>
                   (case build env (Some (i_functionRootPath funcParam)) (name f) []
                           (Some addFiles) (codeTypeOf f) w of
                      (Inl e, w1) \<Rightarrow> (Inl e, w1)
                    | (Inr built, w1) \<Rightarrow>
                       (case (if truthy_str built then built else None) of
                          None \<Rightarrow> (Inl (newCloudBaseError msg_not_exist), w1)
                        | Some base64 \<Rightarrow>
                            request env ScfService ''UpdateFunctionIncrementalCode''
                              (obj_set p ''AddFiles'' (JStr base64)) w1))))"

subsection \<open>The two retry wrappers\<close>

function retryCreateTrigger ::
  "environment \<Rightarrow> string \<Rightarrow> ICloudFunctionTrigger list option \<Rightarrow> nat \<Rightarrow> world
     \<Rightarrow> (CloudBaseError + unit) \<times> world" where
  "retryCreateTrigger env fname trigs count w =
     (case createFunctionTriggers env fname trigs w of
        (Inr res, w1) \<Rightarrow> (Inr (), w1)
      | (Inl e, w1) \<Rightarrow>
          if count < 3 then retryCreateTrigger env fname trigs (count + 1) (sleep 500 w1)
          else (Inl e, w1))"
  by pat_completeness auto
termination
  by (relation "measure (\<lambda>(env, fname, trigs, count, w). 3 - count)") auto

function retryUpdateFunctionCode ::
  "environment \<Rightarrow> IUpdateFunctionCodeParam \<Rightarrow> nat \<Rightarrow> world
     \<Rightarrow> ((CloudBaseError + obj) \<times> world) option" where
  "retryUpdateFunctionCode env param count w =
     (case updateFunctionCode env param w of
        None \<Rightarrow> None
      | Some (Inr res, w1) \<Rightarrow> Some (Inr res, w1)
      | Some (Inl e, w1) \<Rightarrow>
          if count < 3 then retryUpdateFunctionCode env param (count + 1) (sleep 500 w1)
          else Some (Inl e, w1))"
  by pat_completeness auto
termination
  by (relation "measure (\<lambda>(env, param, count, w). 3 - count)") auto

subsection \<open>\<open>createFunction\<close>\<close>

text \<open>
  The body of the \<open>try\<close>: the \<open>CreateFunction\<close> request, the triggers with retry, and
  the wait, entered on \<open>params.InstallDependency && func.isWaitInstall === true\<close>.
\<close>

definition createFunction_try ::
  "environment \<Rightarrow> ICloudFunction \<Rightarrow> obj \<Rightarrow> world \<Rightarrow> ((CloudBaseError + obj) \<times> world) option" where
  "createFunction_try env f params w =
     (case request env ScfService ''CreateFunction'' params w of
        (Inl e, w1) \<Rightarrow> Some (Inl e, w1)
      | (Inr res, w1) \<Rightarrow>
         (case retryCreateTrigger env (name f) (triggers f) 0 w1 of
            (Inl e, w2) \<Rightarrow> Some (Inl e, w2)
          | (Inr u, w2) \<Rightarrow>
              if truthy (obj_get params ''InstallDependency'') \<and> isWaitInstall f = Some True
              then (case waitFunctionActive env (name f) w2 of
                      None \<Rightarrow> None
                    | Some (Inl e, w3) \<Rightarrow> Some (Inl e, w3)
                    | Some (Inr u', w3) \<Rightarrow> Some (Inr res, w3))
              else Some (Inr res, w2)))"

text \<open>The \<open>catch\<close>: reconcile under \<open>force\<close>, otherwise raise.\<close>

definition createFunction_catch ::
  "environment \<Rightarrow> ICreateFunctionParam \<Rightarrow> string \<Rightarrow> CloudBaseError \<Rightarrow> world
     \<Rightarrow> ((CloudBaseError + create_result) \<times> world) option" where
  "createFunction_catch env funcParam base64 e w =
     (let f = func funcParam
      in if code e = Some ''ResourceInUse.FunctionName'' \<and> force funcParam
         then
           (case createFunctionTriggers env (name f) (triggers f) w of
              (Inl e1, w1) \<Rightarrow> Some (Inl e1, w1)
            | (Inr tRes, w1) \<Rightarrow>
               (case updateFunctionConfig env f w1 of
                  (Inl e2, w2) \<Rightarrow> Some (Inl e2, w2)
                | (Inr cRes, w2) \<Rightarrow>
                   (case retryUpdateFunctionCode env
                           \<lparr>u_func = f,
                            u_functionRootPath = Some (functionRootPath funcParam),
                            u_base64Code = Some base64,
                            u_codeSecret = codeSecret funcParam\<rparr> 0 w2 of
                      None \<Rightarrow> None
                    | Some (Inl e3, w3) \<Rightarrow> Some (Inl e3, w3)
                    | Some (Inr uRes, w3) \<Rightarrow>
                        Some (Inr (CreateFunctionRes
                                \<lparr>triggerRes = tRes, configRes = cRes, codeRes = uRes\<rparr>), w3))))
         else if message e \<noteq> [] \<and> \<not> force funcParam
         then Some (Inl \<lparr>message = ''['' @ name f @ '']'' @ msg_deploy_failed @ message e,
                         code = code e, requestId = requestId e\<rparr>, w)
         else Some (Inl e, w))"

definition createFunction ::
  "environment \<Rightarrow> ICreateFunctionParam \<Rightarrow> world
     \<Rightarrow> ((CloudBaseError + create_result) \<times> world) option" where
  "createFunction env funcParam w =
     (let f = func funcParam
      in case validCreateParams f (codeSecret funcParam) of
           Inl e \<Rightarrow> Some (Inl e, w)
         | Inr u \<Rightarrow>
            (case packageCode env f (Some (functionRootPath funcParam)) (base64Code funcParam) w of
               (Inl e, w1) \<Rightarrow> Some (Inl e, w1)
             | (Inr base64, w1) \<Rightarrow>
                (case createFunction_try env f
                        (createFunction_params env f base64 (codeSecret funcParam)) w1 of
                   None \<Rightarrow> None
                 | Some (Inr res, w2) \<Rightarrow> Some (Inr (ResponseInfo res), w2)
                 | Some (Inl e, w2) \<Rightarrow> createFunction_catch env funcParam base64 e w2)))"

section \<open>Traces\<close>

text \<open>
  \<open>extends P w w'\<close>: the world \<open>w'\<close> is \<open>w\<close> followed by events that all satisfy
  \<open>P\<close>. \<open>only_actions A\<close> holds of a pause and of a request whose action is in \<open>A\<close>,
  and of no run of the packer.
\<close>

definition extends :: "(event \<Rightarrow> bool) \<Rightarrow> world \<Rightarrow> world \<Rightarrow> bool" where
  "extends P w w' \<longleftrightarrow> take (length w) w' = w \<and> list_all P (drop (length w) w')"

fun only_actions :: "string list \<Rightarrow> event \<Rightarrow> bool" where
  "only_actions A (Request svc action params r) = (action \<in> set A)"
| "only_actions A (Sleep ms) = True"
| "only_actions A (Build root fname ign add ty r) = False"

definition detail_actions :: "string list" where
  "detail_actions = [''GetFunction'', ''DescribeVpcs'', ''DescribeSubnets'']"

definition reconcile_actions :: "string list" where
  "reconcile_actions =
     [''BatchCreateTrigger'', ''UpdateFunctionConfiguration'', ''UpdateFunctionCode'',
      ''GetFunction'', ''DescribeVpcs'', ''DescribeSubnets'']"

text \<open>How many requests with a given action a trace holds.\<close>

fun is_action :: "string \<Rightarrow> event \<Rightarrow> bool" where
  "is_action a (Request svc action params r) = (action = a)"
| "is_action a (Sleep ms) = False"
| "is_action a (Build root fname ign add ty r) = False"

definition count_action :: "string \<Rightarrow> world \<Rightarrow> nat" where
  "count_action a w = length (filter (is_action a) w)"

section \<open>Concrete functions and environments\<close>

text \<open>
  A function specification with nothing but a name, and an environment around a given
  platform: the packer yields one fixed artifact, and the two transient statuses are the
  strings \<open>Creating\<close> and \<open>Updating\<close>.
\<close>

definition ex_func :: ICloudFunction where
  "ex_func = \<lparr>name = ''f'', timeout = None, envVariables = None, runtime = None, vpc = None,
     installDependency = None, triggers = None, handler = None, ignore = None,
     isWaitInstall = None, l5 = None, layers = None\<rparr>"

definition ex_env ::
  "(world \<Rightarrow> service \<Rightarrow> string \<Rightarrow> obj \<Rightarrow> CloudBaseError + obj) \<Rightarrow> environment" where
  "ex_env platform = \<lparr>namespace = ''ns'', remote = platform,
     packer = (\<lambda>w root fname ign add ty. Inr (Some ''UEsDBA=='')),
     stringify = (\<lambda>v. ''[]''),
     SCF_STATUS_CREATING = ''Creating'', SCF_STATUS_UPDATING = ''Updating''\<rparr>"

definition ex_timer :: ICloudFunctionTrigger where
  "ex_timer = \<lparr>trigger_name = ''t'', trigger_type = ''timer'', trigger_config = ''0 0 2 1 * * *''\<rparr>"

definition ex_error :: "string \<Rightarrow> string \<Rightarrow> CloudBaseError" where
  "ex_error c msg = \<lparr>message = msg, code = Some c, requestId = Some ''req-1''\<rparr>"

text \<open>A platform that accepts every request; \<open>GetFunction\<close> reports an active function.\<close>

definition platform_ok :: "world \<Rightarrow> service \<Rightarrow> string \<Rightarrow> obj \<Rightarrow> CloudBaseError + obj" where
  "platform_ok w svc action params =
     (if action = ''GetFunction'' then Inr [(''Status'', JStr ''Active'')]
      else Inr [(''RequestId'', JStr ''r'')])"

text \<open>
  A platform whose function sits in a VPC and whose VPC service is down: \<open>GetFunction\<close>
  answers, \<open>DescribeVpcs\<close> fails.
\<close>

definition platform_vpc_down :: "world \<Rightarrow> service \<Rightarrow> string \<Rightarrow> obj \<Rightarrow> CloudBaseError + obj" where
  "platform_vpc_down w svc action params =
     (if action = ''GetFunction''
      then Inr [(''Status'', JStr ''Active''),
                (''VpcConfig'', JObj [(''VpcId'', JStr ''vpc-1''), (''SubnetId'', JStr ''subnet-1'')])]
      else Inl (ex_error ''InternalError'' ''service unavailable''))"

text \<open>The same function, with the subnet query failing after the VPC query has answered.\<close>

definition platform_subnet_down ::
  "world \<Rightarrow> service \<Rightarrow> string \<Rightarrow> obj \<Rightarrow> CloudBaseError + obj" where
  "platform_subnet_down w svc action params =
     (if action = ''GetFunction''
      then Inr [(''Status'', JStr ''Active''), (''RequestId'', JStr ''r''),
                (''VpcConfig'', JObj [(''VpcId'', JStr ''vpc-1''), (''SubnetId'', JStr ''subnet-1'')])]
      else if action = ''DescribeVpcs''
      then Inr [(''VpcSet'', JArr [JObj [(''VpcId'', JStr ''vpc-1'')]])]
      else Inl (ex_error ''InternalError'' ''service unavailable''))"

text \<open>A platform on which the function exists already: \<open>CreateFunction\<close> is a conflict.\<close>

definition platform_conflict ::
  "string \<Rightarrow> world \<Rightarrow> service \<Rightarrow> string \<Rightarrow> obj \<Rightarrow> CloudBaseError + obj" where
  "platform_conflict msg w svc action params =
     (if action = ''CreateFunction'' then Inl (ex_error ''ResourceInUse.FunctionName'' msg)
      else if action = ''GetFunction'' then Inr [(''Status'', JStr ''Active'')]
      else Inr [(''RequestId'', JStr action)])"

text \<open>
  A platform on which the function is being created: the first two \<open>GetFunction\<close> requests
  report \<open>Creating\<close>, every later one \<open>Active\<close>. And one on which it never leaves that state.
\<close>

definition platform_creating_twice ::
  "world \<Rightarrow> service \<Rightarrow> string \<Rightarrow> obj \<Rightarrow> CloudBaseError + obj" where
  "platform_creating_twice w svc action params =
     (if action = ''GetFunction''
      then Inr [(''Status'',
                 JStr (if count_action ''GetFunction'' w < 2 then ''Creating'' else ''Active''))]
      else Inr [(''RequestId'', JStr ''r'')])"

definition platform_always_creating ::
  "world \<Rightarrow> service \<Rightarrow> string \<Rightarrow> obj \<Rightarrow> CloudBaseError + obj" where
  "platform_always_creating w svc action params =
     (if action = ''GetFunction'' then Inr [(''Status'', JStr ''Creating'')]
      else Inr [(''RequestId'', JStr ''r'')])"

definition ex_GetFunction :: "string \<Rightarrow> event" where
  "ex_GetFunction status =
     Request ScfService ''GetFunction''
       [(''FunctionName'', JStr ''f''), (''Namespace'', JStr ''ns''), (''ShowCode'', JStr ''TRUE'')]
       (Inr [(''Status'', JStr status)])"

text \<open>
  A platform on which the first \<open>k\<close> requests of the action \<open>a\<close> fail, each with a message
  that tells the attempts apart (\<open>x\<close>, \<open>xx\<close>, ...); with \<open>conflict\<close>, \<open>CreateFunction\<close> is a
  conflict as well.
\<close>

definition platform_flaky ::
  "bool \<Rightarrow> nat \<Rightarrow> string \<Rightarrow> world \<Rightarrow> service \<Rightarrow> string \<Rightarrow> obj \<Rightarrow> CloudBaseError + obj" where
  "platform_flaky conflict k a w svc action params =
     (if action = a \<and> count_action a w < k
      then Inl (ex_error ''InternalError'' (replicate (Suc (count_action a w)) (CHR ''x'')))
      else if action = ''CreateFunction'' \<and> conflict
      then Inl (ex_error ''ResourceInUse.FunctionName'' ''exists'')
      else if action = ''GetFunction'' then Inr [(''Status'', JStr ''Active'')]
      else Inr [(''RequestId'', JStr action)])"

text \<open>The requests of the examples for the triggers, the configuration and the code of \<open>f\<close>.\<close>

definition ex_trigger_request :: "CloudBaseError + obj \<Rightarrow> event" where
  "ex_trigger_request r =
     Request ScfService ''BatchCreateTrigger''
       [(''FunctionName'', JStr ''f''), (''Namespace'', JStr ''ns''), (''Triggers'', JStr ''[]''),
        (''Count'', JNum 1)] r"

definition ex_config_request :: "CloudBaseError + obj \<Rightarrow> event" where
  "ex_config_request r =
     Request ScfService ''UpdateFunctionConfiguration''
       [(''FunctionName'', JStr ''f''), (''Namespace'', JStr ''ns''), (''L5Enable'', JNull),
        (''VpcConfig'', JObj [(''SubnetId'', JStr []), (''VpcId'', JStr [])])] r"

definition ex_code_request :: "CloudBaseError + obj \<Rightarrow> event" where
  "ex_code_request r =
     Request ScfService ''UpdateFunctionCode''
       [(''FunctionName'', JStr ''f''), (''Namespace'', JStr ''ns''), (''ZipFile'', JStr ''UEsDBA==''),
        (''Handler'', JStr ''index.main''), (''InstallDependency'', JStr ''FALSE'')] r"

definition ex_create_request :: "CloudBaseError + obj \<Rightarrow> event" where
  "ex_create_request r =
     Request ScfService ''CreateFunction''
       [(''FunctionName'', JStr ''f''), (''Namespace'', JStr ''ns''),
        (''Code'', JObj [(''ZipFile'', JStr ''UEsDBA=='')]), (''MemorySize'', JNum 256),
        (''Role'', JStr ''TCB_QcsRole''), (''Stamp'', JStr ''MINI_QCBASE''), (''L5Enable'', JNull),
        (''Handler'', JStr ''index.main''), (''Timeout'', JNum 20), (''Runtime'', JStr ''Nodejs8.9''),
        (''VpcConfig'', JObj [(''SubnetId'', JStr []), (''VpcId'', JStr [])]),
        (''InstallDependency'', JStr ''FALSE''),
        (''EipConfig'', JObj [(''EipFixed'', JStr ''FALSE'')])] r"

definition ex_failure :: "string \<Rightarrow> CloudBaseError" where
  "ex_failure xs = ex_error ''InternalError'' xs"

text \<open>What \<open>updateFunctionCode\<close> makes of such a failure.\<close>

definition ex_code_failure :: "string \<Rightarrow> CloudBaseError" where
  "ex_code_failure xs =
     \<lparr>message = ''[f]'' @ msg_code_update_failed @ xs, code = Some ''InternalError'',
      requestId = None\<rparr>"

definition ex_create_param :: "ICloudFunction \<Rightarrow> bool \<Rightarrow> ICreateFunctionParam" where
  "ex_create_param f forced =
     \<lparr>func = f, functionRootPath = ''./functions'', force = forced,
      base64Code = Some ''UEsDBA=='', codeSecret = None\<rparr>"

definition ex_update_param :: IUpdateFunctionCodeParam where
  "ex_update_param =
     \<lparr>u_func = ex_func, u_functionRootPath = Some ''./functions'',
      u_base64Code = Some ''UEsDBA=='', u_codeSecret = None\<rparr>"

section \<open>Auxiliary facts\<close>

text \<open>
  The equations of the two retry wrappers are unfolded by hand, one attempt at a time.
\<close>

declare retryCreateTrigger.simps [simp del]
declare retryUpdateFunctionCode.simps [simp del]

subsection \<open>What each operation adds to the trace\<close>

text \<open>
  Every operation leaves the events it finds in place and adds requests of its own actions
  and pauses; only the packaging runs the packer.
\<close>

lemma extends_iff: "extends P w w' \<longleftrightarrow> (\<exists>evs. w' = w @ evs \<and> list_all P evs)"
  unfolding extends_def
  by (metis append_eq_conv_conj append_take_drop_id)

lemma extends_refl: "extends P w w"
  by (simp add: extends_def)

lemma extends_trans: "extends P w w1 \<Longrightarrow> extends P w1 w2 \<Longrightarrow> extends P w w2"
  unfolding extends_iff by auto

lemma request_extends:
  "request env svc action params w = (r, w') \<Longrightarrow> action \<in> set A \<Longrightarrow> extends (only_actions A) w w'"
  by (auto simp: request_def Let_def extends_def)

lemma sleep_extends: "extends (only_actions A) w (sleep ms w)"
  by (simp add: sleep_def extends_def)

lemma strict_eq_JStr [simp]: "strict_eq v (JStr s) \<longleftrightarrow> v = JStr s"
  by (cases v) auto

lemma createFunctionTriggers_extends:
  "createFunctionTriggers env fname trigs w = (r, w') \<Longrightarrow> ''BatchCreateTrigger'' \<in> set A \<Longrightarrow> extends (only_actions A) w w'"
  by (auto simp: createFunctionTriggers_def Let_def extends_refl split: if_splits option.splits prod.splits sum.splits
      dest: request_extends)

lemma retryCreateTrigger_extends:
  "retryCreateTrigger env fname trigs count w = (r, w') \<Longrightarrow> ''BatchCreateTrigger'' \<in> set A \<Longrightarrow> extends (only_actions A) w w'"
proof (induction env fname trigs count w arbitrary: r w' rule: retryCreateTrigger.induct)
  case (1 env fname trigs count w)
  obtain r1 w1 where c: "createFunctionTriggers env fname trigs w = (r1, w1)"
    by (cases "createFunctionTriggers env fname trigs w")
  have e1: "extends (only_actions A) w w1"
    using c "1.prems"(2) by (rule createFunctionTriggers_extends)
  show ?case
  proof (cases r1)
    case (Inr res)
    with c "1.prems"(1) have "w' = w1" by (simp add: retryCreateTrigger.simps[of env fname trigs count w])
    with e1 show ?thesis by simp
  next
    case (Inl e)
    show ?thesis
    proof (cases "count < 3")
      case True
      with Inl c "1.prems"(1) have "retryCreateTrigger env fname trigs (count + 1) (sleep 500 w1) = (r, w')"
        by (simp add: retryCreateTrigger.simps[of env fname trigs count w])
      from "1.IH"[OF c[symmetric] _ True this "1.prems"(2)] Inl
      have "extends (only_actions A) (sleep 500 w1) w'" by simp
      with e1 sleep_extends show ?thesis by (blast intro: extends_trans)
    next
      case False
      with Inl c "1.prems"(1) have "w' = w1" by (simp add: retryCreateTrigger.simps[of env fname trigs count w])
      with e1 show ?thesis by simp
    qed
  qed
qed


lemma lookupVpc_extends:
  "lookupVpc env v s w = (r, w') \<Longrightarrow> set [''DescribeVpcs'', ''DescribeSubnets''] \<subseteq> set A \<Longrightarrow>
   extends (only_actions A) w w'"
  unfolding lookupVpc_def getVpcs_def getSubnets_def
  by (auto split: prod.splits sum.splits intro: extends_trans dest!: request_extends[where A = A])

lemma getFunctionDetail_extends:
  "getFunctionDetail env fname secret w = (r, w') \<Longrightarrow> set detail_actions \<subseteq> set A \<Longrightarrow> extends (only_actions A) w w'"
  unfolding getFunctionDetail_def Let_def
  by (auto split: prod.splits sum.splits if_splits intro: extends_trans
      dest!: request_extends[where A = A] lookupVpc_extends[where A = A] simp: detail_actions_def)


lemma waitFunctionActive_extends_aux:
  assumes "waitFunctionActive env fname w = Some y" and A: "set detail_actions \<subseteq> set A"
  shows "extends (only_actions A) w (snd y)"
proof (rule waitFunctionActive.raw_induct
    [where P = "\<lambda>env fname w y. extends (only_actions A) w (snd y)", OF _ assms(1)])
  fix wait env fname w y
  assume IH: "\<And>env fname w y. wait env fname w = Some y \<Longrightarrow> extends (only_actions A) w (snd y)"
    and eq: "(case getFunctionDetail env fname None w of
                (Inl e, w1) \<Rightarrow> Some (Inl e, w1)
              | (Inr detail, w1) \<Rightarrow>
                  let w2 = sleep 1000 w1; status = obj_get detail ''Status''
                  in if strict_eq status (JStr (SCF_STATUS_CREATING env))
                        \<or> strict_eq status (JStr (SCF_STATUS_UPDATING env))
                     then wait env fname w2 else Some (Inr (), w2)) = Some y"
  obtain r1 w1 where g: "getFunctionDetail env fname None w = (r1, w1)"
    by (cases "getFunctionDetail env fname None w")
  have e1: "extends (only_actions A) w w1"
    using g A by (rule getFunctionDetail_extends)
  have e2: "extends (only_actions A) w (sleep 1000 w1)"
    using e1 sleep_extends by (rule extends_trans)
  show "extends (only_actions A) w (snd y)"
  proof (cases r1)
    case (Inl e)
    with g eq have "y = (Inl e, w1)" by simp
    with e1 show ?thesis by simp
  next
    case (Inr d)
    show ?thesis
    proof (cases "obj_get d ''Status'' = JStr (SCF_STATUS_CREATING env)
                  \<or> obj_get d ''Status'' = JStr (SCF_STATUS_UPDATING env)")
      case True
      with Inr g eq have "wait env fname (sleep 1000 w1) = Some y"
        by (simp add: Let_def)
      then have "extends (only_actions A) (sleep 1000 w1) (snd y)" by (rule IH)
      with e2 show ?thesis by (rule extends_trans)
    next
      case False
      with Inr g eq have "y = (Inr (), sleep 1000 w1)"
        by (auto simp add: Let_def)
      with e2 show ?thesis by simp
    qed
  qed
qed

lemma waitFunctionActive_extends:
  "waitFunctionActive env fname w = Some (r, w') \<Longrightarrow> set detail_actions \<subseteq> set A \<Longrightarrow> extends (only_actions A) w w'"
  using waitFunctionActive_extends_aux[of env fname w "(r, w')" A] by simp

lemma packageCode_given: "b \<noteq> [] \<Longrightarrow> packageCode env f root (Some b) w = (Inr b, w)"
  by (simp add: packageCode_def)

lemma packageCode_Inr_nonempty: "packageCode env f root b64 w = (Inr b, w1) \<Longrightarrow> b \<noteq> []"
  by (auto simp: packageCode_def split: option.splits if_splits prod.splits sum.splits)

lemma installDependencyOf_nonempty [simp]: "installDependencyOf f \<noteq> []"
  by (simp add: installDependencyOf_def split: option.splits)

lemma updateFunctionCode_try_extends:
  assumes "updateFunctionCode_try env f params w = Some (r, w')"
    and A: "set (''UpdateFunctionCode'' # detail_actions) \<subseteq> set A"
  shows "extends (only_actions A) w w'"
proof -
  obtain r1 w1 where q: "request env ScfService ''UpdateFunctionCode'' params w = (r1, w1)"
    by (cases "request env ScfService ''UpdateFunctionCode'' params w")
  have e1: "extends (only_actions A) w w1"
    using q A by (auto intro: request_extends)
  have d: "set detail_actions \<subseteq> set A" using A by auto
  show ?thesis
  proof (cases r1)
    case (Inl e)
    with q assms(1) have "w' = w1" by (simp add: updateFunctionCode_try_def)
    with e1 show ?thesis by simp
  next
    case (Inr res)
    show ?thesis
    proof (cases "isWaitInstall f = Some True")
      case True
      with Inr q assms(1) obtain r2 where "waitFunctionActive env (name f) w1 = Some (r2, w')"
        by (auto simp: updateFunctionCode_try_def
            split: option.splits sum.splits prod.splits)
      then have "extends (only_actions A) w1 w'" using d by (rule waitFunctionActive_extends)
      with e1 show ?thesis by (rule extends_trans)
    next
      case False
      with Inr q assms(1) have "w' = w1" by (simp add: updateFunctionCode_try_def)
      with e1 show ?thesis by simp
    qed
  qed
qed

lemma updateFunctionCode_extends:
  assumes "updateFunctionCode env param w = Some (r, w')"
    and "u_base64Code param = Some b" and "b \<noteq> []"
    and A: "set (''UpdateFunctionCode'' # detail_actions) \<subseteq> set A"
  shows "extends (only_actions A) w w'"
proof (cases "validCreateParams (u_func param) None")
  case (Inl e)
  with assms(1) have "w' = w" by (simp add: updateFunctionCode_def)
  then show ?thesis by (simp add: extends_refl)
next
  case (Inr u)
  have p: "packageCode env (u_func param) (u_functionRootPath param) (u_base64Code param) w = (Inr b, w)"
    using assms(2,3) by (simp add: packageCode_given)
  from Inr p assms(1) obtain r2 where
    "updateFunctionCode_try env (u_func param)
       (updateFunctionCode_params env (u_func param) b (u_codeSecret param)) w = Some (r2, w')"
    by (auto simp: updateFunctionCode_def Let_def split: option.splits sum.splits prod.splits)
  then show ?thesis using A by (rule updateFunctionCode_try_extends)
qed



lemma retryUpdateFunctionCode_extends:
  assumes "retryUpdateFunctionCode env param count w = Some (r, w')"
    and "u_base64Code param = Some b" and b: "b \<noteq> []"
    and A: "set (''UpdateFunctionCode'' # detail_actions) \<subseteq> set A"
  shows "extends (only_actions A) w w'"
  using assms(1,2)
proof (induction env param count w arbitrary: r w' rule: retryUpdateFunctionCode.induct)
  case (1 env param count w)
  note run = "1.prems"(1) and given = "1.prems"(2)
  from run obtain r1 w1 where u: "updateFunctionCode env param w = Some (r1, w1)"
    by (cases "updateFunctionCode env param w")
      (auto simp: retryUpdateFunctionCode.simps[of env param count w])
  have e1: "extends (only_actions A) w w1"
    using u given b A by (rule updateFunctionCode_extends)
  show ?case
  proof (cases r1)
    case (Inr res)
    with u run have "w' = w1"
      by (simp add: retryUpdateFunctionCode.simps[of env param count w])
    with e1 show ?thesis by simp
  next
    case (Inl e)
    show ?thesis
    proof (cases "count < 3")
      case True
      with Inl u run
      have "retryUpdateFunctionCode env param (count + 1) (sleep 500 w1) = Some (r, w')"
        by (simp add: retryUpdateFunctionCode.simps[of env param count w])
      with "1.IH"[OF u _ Inl True] given have "extends (only_actions A) (sleep 500 w1) w'"
        by simp
      with e1 sleep_extends show ?thesis by (blast intro: extends_trans)
    next
      case False
      with Inl u run have "w' = w1"
        by (simp add: retryUpdateFunctionCode.simps[of env param count w])
      with e1 show ?thesis by simp
    qed
  qed
qed

subsection \<open>\<open>createFunction\<close>: what follows the create request\<close>

lemma reconcile_actions_sub:
  "set (''UpdateFunctionCode'' # detail_actions) \<subseteq> set reconcile_actions"
  "set detail_actions \<subseteq> set reconcile_actions"
  "''BatchCreateTrigger'' \<in> set reconcile_actions"
  "''UpdateFunctionConfiguration'' \<in> set reconcile_actions"
  by (auto simp: reconcile_actions_def detail_actions_def)

lemma createFunction_catch_extends:
  assumes run: "createFunction_catch env p b e w = Some (r, w')" and b: "b \<noteq> []"
  shows "extends (only_actions reconcile_actions) w w'"
proof (cases "code e = Some ''ResourceInUse.FunctionName'' \<and> force p")
  case False
  with run have "w' = w"
    by (auto simp: createFunction_catch_def Let_def split: if_splits)
  then show ?thesis by (simp add: extends_refl)
next
  case True
  let ?f = "func p"
  let ?P = "only_actions reconcile_actions"
  obtain r1 w1 where t: "createFunctionTriggers env (name ?f) (triggers ?f) w = (r1, w1)"
    by (cases "createFunctionTriggers env (name ?f) (triggers ?f) w")
  have e1: "extends ?P w w1"
    using t reconcile_actions_sub(3) by (rule createFunctionTriggers_extends)
  show ?thesis
  proof (cases r1)
    case (Inl e1)
    with True t run have "w' = w1" by (simp add: createFunction_catch_def)
    with e1 show ?thesis by simp
  next
    case (Inr tRes)
    obtain r2 w2 where c: "updateFunctionConfig env ?f w1 = (r2, w2)"
      by (cases "updateFunctionConfig env ?f w1")
    have e2: "extends ?P w1 w2"
      using c reconcile_actions_sub(4) unfolding updateFunctionConfig_def by (rule request_extends)
    show ?thesis
    proof (cases r2)
      case (Inl e2')
      with True t Inr c run have "w' = w2" by (simp add: createFunction_catch_def)
      with e1 e2 show ?thesis by (auto intro: extends_trans)
    next
      case inr2: (Inr cRes)
      let ?param = "\<lparr>u_func = ?f, u_functionRootPath = Some (functionRootPath p),
                      u_base64Code = Some b, u_codeSecret = codeSecret p\<rparr>"
      from True t Inr c inr2 run obtain r3 where
        u: "retryUpdateFunctionCode env ?param 0 w2 = Some (r3, w')"
        by (auto simp: createFunction_catch_def Let_def split: option.splits sum.splits prod.splits)
      have "extends ?P w2 w'"
        using u _ b reconcile_actions_sub(1) by (rule retryUpdateFunctionCode_extends) simp
      with e1 e2 show ?thesis by (blast intro: extends_trans)
    qed
  qed
qed

lemma obj_get_obj_set: "obj_get (obj_set p k v) k' = (if k' = k then v else obj_get p k')"
  by (induction p) (auto simp: obj_get_def)

lemma createFunction_try_extends:
  assumes run: "createFunction_try env f params w = Some (r, w')"
  shows "extends (only_actions reconcile_actions)
           (w @ [Request ScfService ''CreateFunction'' params
                   (remote env w ScfService ''CreateFunction'' params)]) w'"
proof -
  let ?P = "only_actions reconcile_actions"
  let ?w1 = "w @ [Request ScfService ''CreateFunction'' params
                   (remote env w ScfService ''CreateFunction'' params)]"
  have q: "request env ScfService ''CreateFunction'' params w =
             (remote env w ScfService ''CreateFunction'' params, ?w1)"
    by (simp add: request_def Let_def)
  show ?thesis
  proof (cases "remote env w ScfService ''CreateFunction'' params")
    case (Inl e)
    with q run have "w' = ?w1" by (auto simp add: createFunction_try_def)
    then show ?thesis by (simp add: extends_refl)
  next
    case (Inr res)
    obtain r2 w2 where t: "retryCreateTrigger env (name f) (triggers f) 0 ?w1 = (r2, w2)"
      by (cases "retryCreateTrigger env (name f) (triggers f) 0 ?w1")
    have e2: "extends ?P ?w1 w2"
      using t reconcile_actions_sub(3) by (rule retryCreateTrigger_extends)
    show ?thesis
    proof (cases r2)
      case (Inl e)
      with q Inr t run have "w' = w2" by (simp add: createFunction_try_def)
      with e2 show ?thesis by simp
    next
      case inr2: (Inr u)
      show ?thesis
      proof (cases "truthy (obj_get params ''InstallDependency'') \<and> isWaitInstall f = Some True")
        case False
        with q Inr t inr2 run have "w' = w2" by (auto simp add: createFunction_try_def)
        with e2 show ?thesis by simp
      next
        case True
        with q Inr t inr2 run obtain r3 where
          "waitFunctionActive env (name f) w2 = Some (r3, w')"
          by (auto simp: createFunction_try_def split: option.splits sum.splits prod.splits)
        then have "extends ?P w2 w'"
          using reconcile_actions_sub(2) by (rule waitFunctionActive_extends)
        with e2 show ?thesis by (rule extends_trans)
      qed
    qed
  qed
qed

lemma createFunction_extends:
  assumes run: "createFunction env p w = Some (r, w')"
    and valid: "validCreateParams (func p) (codeSecret p) = Inr ()"
    and pack: "packageCode env (func p) (Some (functionRootPath p)) (base64Code p) w = (Inr b, w1)"
  shows "extends (only_actions reconcile_actions)
           (w1 @ [Request ScfService ''CreateFunction''
                    (createFunction_params env (func p) b (codeSecret p))
                    (remote env w1 ScfService ''CreateFunction''
                       (createFunction_params env (func p) b (codeSecret p)))]) w'"
proof -
  let ?params = "createFunction_params env (func p) b (codeSecret p)"
  let ?P = "only_actions reconcile_actions"
  from run valid pack obtain r2 w2 where
    t: "createFunction_try env (func p) ?params w1 = Some (r2, w2)"
    by (cases "createFunction_try env (func p) ?params w1") (auto simp: createFunction_def)
  have e2: "extends ?P (w1 @ [Request ScfService ''CreateFunction'' ?params
                                 (remote env w1 ScfService ''CreateFunction'' ?params)]) w2"
    using t by (rule createFunction_try_extends)
  show ?thesis
  proof (cases r2)
    case (Inr res)
    with run valid pack t have "w' = w2" by (simp add: createFunction_def)
    with e2 show ?thesis by simp
  next
    case (Inl e)
    with run valid pack t have "createFunction_catch env p b e w2 = Some (r, w')"
      by (simp add: createFunction_def)
    then have "extends ?P w2 w'"
      using packageCode_Inr_nonempty[OF pack] by (rule createFunction_catch_extends)
    with e2 show ?thesis by (rule extends_trans)
  qed
qed

subsection \<open>Failing VPC queries\<close>

lemma lookupVpc_query_fails:
  "remote env w VpcService ''DescribeVpcs'' [] = Inl e \<Longrightarrow> fst (lookupVpc env v s w) = Inl e"
  "remote env w VpcService ''DescribeVpcs'' [] = Inr vs \<Longrightarrow>
   remote env (w @ [Request VpcService ''DescribeVpcs'' [] (Inr vs)]) VpcService ''DescribeSubnets''
     [(''Filters'', JArr [JObj [(''Name'', JStr ''vpc-id''), (''Values'', JArr [v])]])] = Inl e \<Longrightarrow>
   fst (lookupVpc env v s w) = Inl e"
  by (simp_all add: lookupVpc_def getVpcs_def getSubnets_def request_def Let_def)

subsection \<open>The \<open>Environment\<close> parameter\<close>



lemma obj_get_skip_if:
  "k' \<noteq> k \<Longrightarrow> obj_get (if c then obj_set p k v else p) k' = obj_get p k'"
  by (simp add: obj_get_obj_set)

lemma obj_get_skip_case_if:
  "k' \<noteq> k \<Longrightarrow>
   obj_get (case x of None \<Rightarrow> p | Some s \<Rightarrow> if c s then obj_set p k (g s) else p) k' = obj_get p k'"
  by (simp add: obj_get_obj_set split: option.splits)

lemma obj_get_skip_case:
  "k' \<noteq> k \<Longrightarrow>
   obj_get (case x of None \<Rightarrow> p | Some s \<Rightarrow> obj_set p k (g s)) k' = obj_get p k'"
  by (simp add: obj_get_obj_set split: option.splits)

lemma obj_get_skip_set: "k' \<noteq> k \<Longrightarrow> obj_get (obj_set p k v) k' = obj_get p k'"
  by (simp add: obj_get_obj_set)

lemmas obj_get_skip = obj_get_skip_if obj_get_skip_case_if obj_get_skip_case obj_get_skip_set



subsection \<open>Validation fails before any effect\<close>

lemma validCreateParams_rejects_runtime:
  "runtime f = Some r \<Longrightarrow> r \<noteq> [] \<Longrightarrow> r \<notin> set validRuntime \<Longrightarrow>
   (case secret of None \<Rightarrow> True | Some s \<Rightarrow> s = [] \<or> codeSecret_test s) \<Longrightarrow>
   validCreateParams f secret =
     Inl (newCloudBaseError (name f @ '' Invalid runtime value'' @ fullwidth_colon @ r
            @ ''. Now only support: Nodejs8.9, Php7, Java8''))"
  by (auto simp: validCreateParams_def validRuntime_def split: option.splits)

lemma validCreateParams_rejects_secret:
  "s \<noteq> [] \<Longrightarrow> \<not> codeSecret_test s \<Longrightarrow>
   validCreateParams f (Some s) = Inl (newCloudBaseError msg_codeSecret_format)"
  by (simp add: validCreateParams_def)

lemma validCreateParams_rejects:
  assumes "(\<exists>r. runtime f = Some r \<and> r \<noteq> [] \<and> r \<notin> set validRuntime)
           \<or> (\<exists>s. secret = Some s \<and> s \<noteq> [] \<and> \<not> codeSecret_test s)"
  shows "\<exists>e. validCreateParams f secret = Inl e"
  using assms by (auto simp: validCreateParams_def split: option.splits)

lemma createFunction_fails_fast:
  assumes "(\<exists>r. runtime (func p) = Some r \<and> r \<noteq> [] \<and> r \<notin> set validRuntime)
           \<or> (\<exists>s. codeSecret p = Some s \<and> s \<noteq> [] \<and> \<not> codeSecret_test s)"
  shows "\<exists>e. createFunction env p w = Some (Inl e, w)"
  using validCreateParams_rejects[OF assms] by (auto simp: createFunction_def)

lemma updateFunctionCode_fails_fast_on_runtime:
  assumes "runtime (u_func p) = Some r" "r \<noteq> []" "r \<notin> set validRuntime"
  shows "\<exists>e. updateFunctionCode env p w = Some (Inl e, w)"
  using validCreateParams_rejects[of "u_func p" None] assms by (auto simp: updateFunctionCode_def)

lemma updateFunctionIncrementalCode_fails_fast_on_runtime:
  assumes "runtime (i_func p) = Some r" "r \<noteq> []" "r \<notin> set validRuntime"
  shows "\<exists>e. updateFunctionIncrementalCode env p w = (Inl e, w)"
  using validCreateParams_rejects[of "i_func p" None] assms
  by (auto simp: updateFunctionIncrementalCode_def)

subsection \<open>Counting requests; the steps of the wait\<close>

lemma extends_count_action:
  "extends (only_actions A) w w' \<Longrightarrow> a \<notin> set A \<Longrightarrow> count_action a w' = count_action a w"
proof -
  assume e: "extends (only_actions A) w w'" and a: "a \<notin> set A"
  from e obtain evs where w': "w' = w @ evs" and all: "list_all (only_actions A) evs"
    unfolding extends_iff by blast
  have "filter (is_action a) evs = []"
  proof (rule filter_False, rule ballI)
    fix ev assume "ev \<in> set evs"
    with all have "only_actions A ev" by (simp add: list_all_iff)
    with a show "\<not> is_action a ev" by (cases ev) auto
  qed
  with w' show ?thesis by (simp add: count_action_def)
qed

lemma getFunctionDetail_count:
  "count_action ''GetFunction'' (snd (getFunctionDetail env fname secret w))
     = count_action ''GetFunction'' w + 1"
proof -
  let ?params = "getFunctionDetail_params env fname secret"
  let ?r = "remote env w ScfService ''GetFunction'' ?params"
  let ?w1 = "w @ [Request ScfService ''GetFunction'' ?params ?r]"
  have c1: "count_action ''GetFunction'' ?w1 = count_action ''GetFunction'' w + 1"
    by (simp add: count_action_def)
  have l: "count_action ''GetFunction'' (snd (lookupVpc env v s ?w1)) = count_action ''GetFunction'' ?w1"
    for v s
  proof -
    obtain r2 w2 where k: "lookupVpc env v s ?w1 = (r2, w2)" by (cases "lookupVpc env v s ?w1")
    then have "extends (only_actions [''DescribeVpcs'', ''DescribeSubnets'']) ?w1 w2"
      by (rule lookupVpc_extends) simp
    then have "count_action ''GetFunction'' w2 = count_action ''GetFunction'' ?w1"
      by (rule extends_count_action) simp
    with k show ?thesis by simp
  qed
  show ?thesis
  proof (cases ?r)
    case (Inl e)
    then show ?thesis using c1 by (simp add: getFunctionDetail_def request_def Let_def)
  next
    case (Inr res)
    let ?data = "filter (\<lambda>kv. fst kv \<in> set validKeys) res"
    obtain r2 w2 where
      k: "lookupVpc env (vpcField ?data ''VpcId'') (vpcField ?data ''SubnetId'') ?w1 = (r2, w2)"
      by (cases "lookupVpc env (vpcField ?data ''VpcId'') (vpcField ?data ''SubnetId'') ?w1")
    from l[of "vpcField ?data ''VpcId''" "vpcField ?data ''SubnetId''"] k
    have c2: "count_action ''GetFunction'' w2 = count_action ''GetFunction'' ?w1" by simp
    have "snd (getFunctionDetail env fname secret w) = ?w1
          \<or> snd (getFunctionDetail env fname secret w) = w2"
      using Inr k by (auto simp: getFunctionDetail_def request_def Let_def split: sum.splits)
    then show ?thesis using c1 c2 by auto
  qed
qed

lemma waitFunctionActive_step:
  assumes "getFunctionDetail env fname None w = (Inr d, w1)"
  shows "waitFunctionActive env fname w =
           (if obj_get d ''Status'' = JStr (SCF_STATUS_CREATING env)
               \<or> obj_get d ''Status'' = JStr (SCF_STATUS_UPDATING env)
            then waitFunctionActive env fname (w1 @ [Sleep 1000])
            else Some (Inr (), w1 @ [Sleep 1000]))"
  by (subst waitFunctionActive.simps) (simp add: assms Let_def sleep_def)

lemma waitFunctionActive_error:
  assumes "getFunctionDetail env fname None w = (Inl e, w1)"
  shows "waitFunctionActive env fname w = Some (Inl e, w1)"
  by (subst waitFunctionActive.simps) (simp add: assms)

lemma waitFunctionActive_never_returns:
  assumes always: "\<forall>w'. \<exists>d w1. getFunctionDetail env fname None w' = (Inr d, w1)
                      \<and> obj_get d ''Status'' = JStr (SCF_STATUS_CREATING env)"
  shows "waitFunctionActive env fname w = None"
proof (rule ccontr)
  assume "waitFunctionActive env fname w \<noteq> None"
  then obtain y where y: "waitFunctionActive env fname w = Some y" by auto
  have "env = env \<and> fname = fname \<longrightarrow> False"
  proof (rule waitFunctionActive.raw_induct
      [where P = "\<lambda>env' fname' w y. env' = env \<and> fname' = fname \<longrightarrow> False", OF _ y])
    fix wait env' fname' w y
    assume IH: "\<And>env' fname' w y. wait env' fname' w = Some y \<Longrightarrow> env' = env \<and> fname' = fname \<longrightarrow> False"
      and eq: "(case getFunctionDetail env' fname' None w of
                  (Inl e, w1) \<Rightarrow> Some (Inl e, w1)
                | (Inr detail, w1) \<Rightarrow>
                    let w2 = sleep 1000 w1; status = obj_get detail ''Status''
                    in if strict_eq status (JStr (SCF_STATUS_CREATING env'))
                          \<or> strict_eq status (JStr (SCF_STATUS_UPDATING env'))
                       then wait env' fname' w2 else Some (Inr (), w2)) = Some y"
    show "env' = env \<and> fname' = fname \<longrightarrow> False"
    proof
      assume same: "env' = env \<and> fname' = fname"
      from always obtain d w1 where
        g: "getFunctionDetail env fname None w = (Inr d, w1)"
        and s: "obj_get d ''Status'' = JStr (SCF_STATUS_CREATING env)" by blast
      from eq same g s have "wait env fname (sleep 1000 w1) = Some y" by (simp add: Let_def)
      from IH[OF this] show False by simp
    qed
  qed
  then show False by simp
qed

subsection \<open>The packer runs first\<close>

lemma extends_prefix: "extends P w w' \<Longrightarrow> take (length w) w' = w"
  by (simp add: extends_def)

lemma extends_append_prefix: "extends P (w @ evs) w' \<Longrightarrow> take (length w) w' = w"
  unfolding extends_iff by auto

lemma packageCode_world:
  "snd (packageCode env f root b64 w) =
     (if truthy_str b64 then w
      else w @ [Build root (name f) (ignoreOf f) None (codeTypeOf f)
                  (packer env w root (name f) (ignoreOf f) None (codeTypeOf f))])"
  by (auto simp: packageCode_def build_def Let_def split: option.splits if_splits prod.splits sum.splits)

lemma createFunction_after_package:
  assumes run: "createFunction env p w = Some (r, w')"
    and valid: "validCreateParams (func p) (codeSecret p) = Inr ()"
  shows "take (length (snd (packageCode env (func p) (Some (functionRootPath p)) (base64Code p) w))) w'
           = snd (packageCode env (func p) (Some (functionRootPath p)) (base64Code p) w)"
proof -
  obtain r1 w1 where
    pk: "packageCode env (func p) (Some (functionRootPath p)) (base64Code p) w = (r1, w1)"
    by (cases "packageCode env (func p) (Some (functionRootPath p)) (base64Code p) w")
  show ?thesis
  proof (cases r1)
    case (Inl e)
    with run valid pk have "w' = w1" by (simp add: createFunction_def)
    with pk show ?thesis by simp
  next
    case (Inr b)
    with pk have pk': "packageCode env (func p) (Some (functionRootPath p)) (base64Code p) w = (Inr b, w1)"
      by simp
    from createFunction_extends[OF run valid pk']
    have "take (length w1) w' = w1" by (rule extends_append_prefix)
    with pk show ?thesis by simp
  qed
qed

lemma updateFunctionCode_after_package:
  assumes run: "updateFunctionCode env p w = Some (r, w')"
    and valid: "validCreateParams (u_func p) None = Inr ()"
  shows "take (length (snd (packageCode env (u_func p) (u_functionRootPath p) (u_base64Code p) w))) w'
           = snd (packageCode env (u_func p) (u_functionRootPath p) (u_base64Code p) w)"
proof -
  obtain r1 w1 where
    pk: "packageCode env (u_func p) (u_functionRootPath p) (u_base64Code p) w = (r1, w1)"
    by (cases "packageCode env (u_func p) (u_functionRootPath p) (u_base64Code p) w")
  show ?thesis
  proof (cases r1)
    case (Inl e)
    with run valid pk have "w' = w1" by (simp add: updateFunctionCode_def)
    with pk show ?thesis by simp
  next
    case (Inr b)
    with run valid pk obtain r2 where
      "updateFunctionCode_try env (u_func p)
         (updateFunctionCode_params env (u_func p) b (u_codeSecret p)) w1 = Some (r2, w')"
      by (auto simp: updateFunctionCode_def Let_def split: option.splits sum.splits prod.splits)
    then have "extends (only_actions (''UpdateFunctionCode'' # detail_actions)) w1 w'"
      by (rule updateFunctionCode_try_extends) simp
    then have "take (length w1) w' = w1" by (rule extends_prefix)
    with pk show ?thesis by simp
  qed
qed

lemma ignoreOf_eq:
  "ignoreOf f =
     (if installDependency f = Some True
         \<or> (installDependency f = None \<and> runtime f = Some ''Nodejs8.9'')
      then ''node_modules/**/*'' # ''node_modules'' # spread_ignore (ignore f)
      else spread_ignore (ignore f))"
  by (auto simp: ignoreOf_def installDependencyOf_def split: option.splits)

lemma packer_runs_first_with_ignoreOf:
  assumes "\<not> truthy_str b64"
  shows "ignoreOf f =
           (if installDependency f = Some True
               \<or> (installDependency f = None \<and> runtime f = Some ''Nodejs8.9'')
            then ''node_modules/**/*'' # ''node_modules'' # spread_ignore (ignore f)
            else spread_ignore (ignore f))
       \<and> snd (packageCode env f root b64 w) =
           w @ [Build root (name f) (ignoreOf f) None (codeTypeOf f)
                  (packer env w root (name f) (ignoreOf f) None (codeTypeOf f))]
       \<and> (\<forall>p r w'. func p = f \<and> base64Code p = b64 \<and> validCreateParams f (codeSecret p) = Inr ()
              \<and> createFunction env p w = Some (r, w') \<longrightarrow>
            take (Suc (length w)) w' =
              w @ [Build (Some (functionRootPath p)) (name f) (ignoreOf f) None (codeTypeOf f)
                     (packer env w (Some (functionRootPath p)) (name f) (ignoreOf f) None
                        (codeTypeOf f))])
       \<and> (\<forall>p r w'. u_func p = f \<and> u_base64Code p = b64 \<and> validCreateParams f None = Inr ()
              \<and> updateFunctionCode env p w = Some (r, w') \<longrightarrow>
            take (Suc (length w)) w' =
              w @ [Build (u_functionRootPath p) (name f) (ignoreOf f) None (codeTypeOf f)
                     (packer env w (u_functionRootPath p) (name f) (ignoreOf f) None
                        (codeTypeOf f))])"
proof (intro conjI allI impI)
  show "ignoreOf f =
           (if installDependency f = Some True
               \<or> (installDependency f = None \<and> runtime f = Some ''Nodejs8.9'')
            then ''node_modules/**/*'' # ''node_modules'' # spread_ignore (ignore f)
            else spread_ignore (ignore f))"
    by (rule ignoreOf_eq)
next
  show "snd (packageCode env f root b64 w) =
           w @ [Build root (name f) (ignoreOf f) None (codeTypeOf f)
                  (packer env w root (name f) (ignoreOf f) None (codeTypeOf f))]"
    using assms by (simp add: packageCode_world)
next
  fix p r w'
  assume h: "func p = f \<and> base64Code p = b64 \<and> validCreateParams f (codeSecret p) = Inr ()
              \<and> createFunction env p w = Some (r, w')"
  then have "take (length (snd (packageCode env (func p) (Some (functionRootPath p)) (base64Code p) w))) w'
           = snd (packageCode env (func p) (Some (functionRootPath p)) (base64Code p) w)"
    using createFunction_after_package[of env p w r w'] by simp
  with h assms show "take (Suc (length w)) w' =
              w @ [Build (Some (functionRootPath p)) (name f) (ignoreOf f) None (codeTypeOf f)
                     (packer env w (Some (functionRootPath p)) (name f) (ignoreOf f) None
                        (codeTypeOf f))]"
    by (simp add: packageCode_world)
next
  fix p r w'
  assume h: "u_func p = f \<and> u_base64Code p = b64 \<and> validCreateParams f None = Inr ()
              \<and> updateFunctionCode env p w = Some (r, w')"
  then have "take (length (snd (packageCode env (u_func p) (u_functionRootPath p) (u_base64Code p) w))) w'
           = snd (packageCode env (u_func p) (u_functionRootPath p) (u_base64Code p) w)"
    using updateFunctionCode_after_package[of env p w r w'] by simp
  with h assms show "take (Suc (length w)) w' =
              w @ [Build (u_functionRootPath p) (name f) (ignoreOf f) None (codeTypeOf f)
                     (packer env w (u_functionRootPath p) (name f) (ignoreOf f) None
                        (codeTypeOf f))]"
    by (simp add: packageCode_world)
qed

subsection \<open>The retry wrappers, attempt by attempt\<close>

lemma retryCreateTrigger_success:
  "createFunctionTriggers env fname trigs w = (Inr r, w1) \<Longrightarrow>
   retryCreateTrigger env fname trigs count w = (Inr (), w1)"
  by (simp add: retryCreateTrigger.simps[of env fname trigs count w])

lemma retryCreateTrigger_retry:
  "createFunctionTriggers env fname trigs w = (Inl e, w1) \<Longrightarrow> count < 3 \<Longrightarrow>
   retryCreateTrigger env fname trigs count w =
     retryCreateTrigger env fname trigs (Suc count) (w1 @ [Sleep 500])"
  by (simp add: retryCreateTrigger.simps[of env fname trigs count w] sleep_def)

lemma retryCreateTrigger_exhausted:
  "createFunctionTriggers env fname trigs w = (Inl e, w1) \<Longrightarrow> \<not> count < 3 \<Longrightarrow>
   retryCreateTrigger env fname trigs count w = (Inl e, w1)"
  by (simp add: retryCreateTrigger.simps[of env fname trigs count w])

lemma retryUpdateFunctionCode_success:
  "updateFunctionCode env param w = Some (Inr r, w1) \<Longrightarrow>
   retryUpdateFunctionCode env param count w = Some (Inr r, w1)"
  by (simp add: retryUpdateFunctionCode.simps[of env param count w])

lemma retryUpdateFunctionCode_retry:
  "updateFunctionCode env param w = Some (Inl e, w1) \<Longrightarrow> count < 3 \<Longrightarrow>
   retryUpdateFunctionCode env param count w =
     retryUpdateFunctionCode env param (Suc count) (w1 @ [Sleep 500])"
  by (simp add: retryUpdateFunctionCode.simps[of env param count w] sleep_def)

lemma retryUpdateFunctionCode_exhausted:
  "updateFunctionCode env param w = Some (Inl e, w1) \<Longrightarrow> \<not> count < 3 \<Longrightarrow>
   retryUpdateFunctionCode env param count w = Some (Inl e, w1)"
  by (simp add: retryUpdateFunctionCode.simps[of env param count w])

lemma retryCreateTrigger_third:
  assumes "createFunctionTriggers env fname trigs w = (Inl e1, w1)"
    and "createFunctionTriggers env fname trigs (w1 @ [Sleep 500]) = (Inl e2, w2)"
    and "createFunctionTriggers env fname trigs (w2 @ [Sleep 500]) = (Inr r3, w3)"
  shows "retryCreateTrigger env fname trigs 0 w = (Inr (), w3)"
proof -
  have "retryCreateTrigger env fname trigs 0 w
          = retryCreateTrigger env fname trigs (Suc 0) (w1 @ [Sleep 500])"
    using assms(1) by (rule retryCreateTrigger_retry) simp
  also have "\<dots> = retryCreateTrigger env fname trigs (Suc (Suc 0)) (w2 @ [Sleep 500])"
    using assms(2) by (rule retryCreateTrigger_retry) simp
  also have "\<dots> = (Inr (), w3)"
    using assms(3) by (rule retryCreateTrigger_success)
  finally show ?thesis .
qed

lemma retryCreateTrigger_fourth:
  assumes "createFunctionTriggers env fname trigs w = (Inl e1, w1)"
    and "createFunctionTriggers env fname trigs (w1 @ [Sleep 500]) = (Inl e2, w2)"
    and "createFunctionTriggers env fname trigs (w2 @ [Sleep 500]) = (Inl e3, w3)"
    and "createFunctionTriggers env fname trigs (w3 @ [Sleep 500]) = (Inl e4, w4)"
  shows "retryCreateTrigger env fname trigs 0 w = (Inl e4, w4)"
proof -
  have "retryCreateTrigger env fname trigs 0 w
          = retryCreateTrigger env fname trigs (Suc 0) (w1 @ [Sleep 500])"
    using assms(1) by (rule retryCreateTrigger_retry) simp
  also have "\<dots> = retryCreateTrigger env fname trigs (Suc (Suc 0)) (w2 @ [Sleep 500])"
    using assms(2) by (rule retryCreateTrigger_retry) simp
  also have "\<dots> = retryCreateTrigger env fname trigs (Suc (Suc (Suc 0))) (w3 @ [Sleep 500])"
    using assms(3) by (rule retryCreateTrigger_retry) simp
  also have "\<dots> = (Inl e4, w4)"
    using assms(4) by (rule retryCreateTrigger_exhausted) simp
  finally show ?thesis .
qed

lemma retryUpdateFunctionCode_third:
  assumes "updateFunctionCode env param w = Some (Inl e1, w1)"
    and "updateFunctionCode env param (w1 @ [Sleep 500]) = Some (Inl e2, w2)"
    and "updateFunctionCode env param (w2 @ [Sleep 500]) = Some (Inr r3, w3)"
  shows "retryUpdateFunctionCode env param 0 w = Some (Inr r3, w3)"
proof -
  have "retryUpdateFunctionCode env param 0 w
          = retryUpdateFunctionCode env param (Suc 0) (w1 @ [Sleep 500])"
    using assms(1) by (rule retryUpdateFunctionCode_retry) simp
  also have "\<dots> = retryUpdateFunctionCode env param (Suc (Suc 0)) (w2 @ [Sleep 500])"
    using assms(2) by (rule retryUpdateFunctionCode_retry) simp
  also have "\<dots> = Some (Inr r3, w3)"
    using assms(3) by (rule retryUpdateFunctionCode_success)
  finally show ?thesis .
qed

lemma retryUpdateFunctionCode_fourth:
  assumes "updateFunctionCode env param w = Some (Inl e1, w1)"
    and "updateFunctionCode env param (w1 @ [Sleep 500]) = Some (Inl e2, w2)"
    and "updateFunctionCode env param (w2 @ [Sleep 500]) = Some (Inl e3, w3)"
    and "updateFunctionCode env param (w3 @ [Sleep 500]) = Some (Inl e4, w4)"
  shows "retryUpdateFunctionCode env param 0 w = Some (Inl e4, w4)"
proof -
  have "retryUpdateFunctionCode env param 0 w
          = retryUpdateFunctionCode env param (Suc 0) (w1 @ [Sleep 500])"
    using assms(1) by (rule retryUpdateFunctionCode_retry) simp
  also have "\<dots> = retryUpdateFunctionCode env param (Suc (Suc 0)) (w2 @ [Sleep 500])"
    using assms(2) by (rule retryUpdateFunctionCode_retry) simp
  also have "\<dots> = retryUpdateFunctionCode env param (Suc (Suc (Suc 0))) (w3 @ [Sleep 500])"
    using assms(3) by (rule retryUpdateFunctionCode_retry) simp
  also have "\<dots> = Some (Inl e4, w4)"
    using assms(4) by (rule retryUpdateFunctionCode_exhausted) simp
  finally show ?thesis .
qed

subsection \<open>\<open>createFunction\<close> after the create request has answered\<close>

lemma createFunction_one_create_request:
  assumes run: "createFunction env p w = Some (r, w')"
    and valid: "validCreateParams (func p) (codeSecret p) = Inr ()"
    and pack: "packageCode env (func p) (Some (functionRootPath p)) (base64Code p) w = (Inr b, w1)"
  shows "count_action ''CreateFunction'' w' = count_action ''CreateFunction'' w + 1"
proof -
  let ?req = "Request ScfService ''CreateFunction''
                (createFunction_params env (func p) b (codeSecret p))
                (remote env w1 ScfService ''CreateFunction''
                   (createFunction_params env (func p) b (codeSecret p)))"
  have "extends (only_actions reconcile_actions) (w1 @ [?req]) w'"
    using run valid pack by (rule createFunction_extends)
  then have "count_action ''CreateFunction'' w' = count_action ''CreateFunction'' (w1 @ [?req])"
    by (rule extends_count_action) (simp add: reconcile_actions_def)
  moreover have "count_action ''CreateFunction'' w1 = count_action ''CreateFunction'' w"
    using packageCode_world[of env "func p" "Some (functionRootPath p)" "base64Code p" w] pack
    by (auto simp: count_action_def split: if_splits)
  ultimately show ?thesis by (simp add: count_action_def)
qed

lemma createFunction_conflict_force:
  assumes valid: "validCreateParams (func p) (codeSecret p) = Inr ()"
    and pack: "packageCode env (func p) (Some (functionRootPath p)) (base64Code p) w = (Inr b, w1)"
    and fail: "remote env w1 ScfService ''CreateFunction''
                 (createFunction_params env (func p) b (codeSecret p)) = Inl e"
    and conflict: "code e = Some ''ResourceInUse.FunctionName''" and force: "force p"
  shows "createFunction env p w =
     (case createFunctionTriggers env (name (func p)) (triggers (func p))
             (w1 @ [Request ScfService ''CreateFunction''
                      (createFunction_params env (func p) b (codeSecret p)) (Inl e)]) of
        (Inl e1, w3) \<Rightarrow> Some (Inl e1, w3)
      | (Inr tRes, w3) \<Rightarrow>
         (case updateFunctionConfig env (func p) w3 of
            (Inl e2, w4) \<Rightarrow> Some (Inl e2, w4)
          | (Inr cRes, w4) \<Rightarrow>
             (case retryUpdateFunctionCode env
                     \<lparr>u_func = func p, u_functionRootPath = Some (functionRootPath p),
                      u_base64Code = Some b, u_codeSecret = codeSecret p\<rparr> 0 w4 of
                None \<Rightarrow> None
              | Some (Inl e3, w5) \<Rightarrow> Some (Inl e3, w5)
              | Some (Inr uRes, w5) \<Rightarrow>
                  Some (Inr (CreateFunctionRes
                          \<lparr>triggerRes = tRes, configRes = cRes, codeRes = uRes\<rparr>), w5))))"
  using assms
  by (simp add: createFunction_def createFunction_try_def createFunction_catch_def request_def Let_def)

lemma createFunction_created:
  assumes valid: "validCreateParams (func p) (codeSecret p) = Inr ()"
    and pack: "packageCode env (func p) (Some (functionRootPath p)) (base64Code p) w = (Inr b, w1)"
    and ok: "remote env w1 ScfService ''CreateFunction''
                 (createFunction_params env (func p) b (codeSecret p)) = Inr res"
    and trig: "retryCreateTrigger env (name (func p)) (triggers (func p)) 0
                 (w1 @ [Request ScfService ''CreateFunction''
                          (createFunction_params env (func p) b (codeSecret p)) (Inr res)])
               = (Inr (), w2)"
    and nowait: "isWaitInstall (func p) \<noteq> Some True"
  shows "createFunction env p w = Some (Inr (ResponseInfo res), w2)"
  using assms
  by (simp add: createFunction_def createFunction_try_def request_def Let_def)

section \<open>Claim C1: a conflict under \<open>force\<close>\<close>

text \<open>
  C1: when the \<open>CreateFunction\<close> request fails with the code \<open>ResourceInUse.FunctionName\<close>
  and \<open>force\<close> is true, \<open>createFunction\<close> is the reconcile sequence, run in the world left
  by that request: the triggers are created, then the configuration is updated, then the
  code is updated (with retry), each step starting where the one before ended; when all
  three succeed the result is the composite of the three results, and the first step that
  fails ends the sequence with its error. The code update is given the artifact \<open>b\<close> that
  was packaged for the create: its own packaging step returns \<open>b\<close> and leaves the world as
  it is, and its request carries \<open>b\<close> as \<open>ZipFile\<close>. Whatever the outcome, everything that
  happens after the create request is a pause or a request of the reconcile steps (triggers,
  configuration, code, and the status checks of the wait): the packer is not run again.
\<close>

theorem conflict_with_force_reconciles:
  assumes "validCreateParams (func p) (codeSecret p) = Inr ()"
    and "packageCode env (func p) (Some (functionRootPath p)) (base64Code p) w = (Inr b, w1)"
    and "remote env w1 ScfService ''CreateFunction''
           (createFunction_params env (func p) b (codeSecret p)) = Inl e"
    and "code e = Some ''ResourceInUse.FunctionName''"
    and "force p"
  shows "createFunction env p w =
     (case createFunctionTriggers env (name (func p)) (triggers (func p))
             (w1 @ [Request ScfService ''CreateFunction''
                      (createFunction_params env (func p) b (codeSecret p)) (Inl e)]) of
        (Inl e1, w3) \<Rightarrow> Some (Inl e1, w3)
      | (Inr tRes, w3) \<Rightarrow>
         (case updateFunctionConfig env (func p) w3 of
            (Inl e2, w4) \<Rightarrow> Some (Inl e2, w4)
          | (Inr cRes, w4) \<Rightarrow>
             (case retryUpdateFunctionCode env
                     \<lparr>u_func = func p, u_functionRootPath = Some (functionRootPath p),
                      u_base64Code = Some b, u_codeSecret = codeSecret p\<rparr> 0 w4 of
                None \<Rightarrow> None
              | Some (Inl e3, w5) \<Rightarrow> Some (Inl e3, w5)
              | Some (Inr uRes, w5) \<Rightarrow>
                  Some (Inr (CreateFunctionRes
                          \<lparr>triggerRes = tRes, configRes = cRes, codeRes = uRes\<rparr>), w5))))
   \<and> packageCode env (func p) (Some (functionRootPath p)) (Some b) w4 = (Inr b, w4)
   \<and> obj_get (updateFunctionCode_params env (func p) b (codeSecret p)) ''ZipFile'' = JStr b
   \<and> (\<forall>r w'. createFunction env p w = Some (r, w') \<longrightarrow>
         extends (only_actions reconcile_actions)
           (w1 @ [Request ScfService ''CreateFunction''
                    (createFunction_params env (func p) b (codeSecret p)) (Inl e)]) w')"
proof (intro conjI allI impI)
  show "createFunction env p w =
     (case createFunctionTriggers env (name (func p)) (triggers (func p))
             (w1 @ [Request ScfService ''CreateFunction''
                      (createFunction_params env (func p) b (codeSecret p)) (Inl e)]) of
        (Inl e1, w3) \<Rightarrow> Some (Inl e1, w3)
      | (Inr tRes, w3) \<Rightarrow>
         (case updateFunctionConfig env (func p) w3 of
            (Inl e2, w4) \<Rightarrow> Some (Inl e2, w4)
          | (Inr cRes, w4) \<Rightarrow>
             (case retryUpdateFunctionCode env
                     \<lparr>u_func = func p, u_functionRootPath = Some (functionRootPath p),
                      u_base64Code = Some b, u_codeSecret = codeSecret p\<rparr> 0 w4 of
                None \<Rightarrow> None
              | Some (Inl e3, w5) \<Rightarrow> Some (Inl e3, w5)
              | Some (Inr uRes, w5) \<Rightarrow>
                  Some (Inr (CreateFunctionRes
                          \<lparr>triggerRes = tRes, configRes = cRes, codeRes = uRes\<rparr>), w5))))"
    using assms by (rule createFunction_conflict_force)
next
  have "b \<noteq> []" using assms(2) by (rule packageCode_Inr_nonempty)
  then show "packageCode env (func p) (Some (functionRootPath p)) (Some b) w4 = (Inr b, w4)"
    by (rule packageCode_given)
next
  show "obj_get (updateFunctionCode_params env (func p) b (codeSecret p)) ''ZipFile'' = JStr b"
    by (simp add: updateFunctionCode_params_def Let_def obj_get_skip) (simp add: obj_get_def)
next
  fix r w'
  assume "createFunction env p w = Some (r, w')"
  from createFunction_extends[OF this assms(1,2)] assms(3)
  show "extends (only_actions reconcile_actions)
           (w1 @ [Request ScfService ''CreateFunction''
                    (createFunction_params env (func p) b (codeSecret p)) (Inl e)]) w'"
    by simp
qed

theorem conflict_with_force_reconciles_witness:
  "validCreateParams (ex_func\<lparr>triggers := Some [ex_timer]\<rparr>) None = Inr ()
   \<and> remote (ex_env (platform_conflict ''exists'')) [] ScfService ''CreateFunction''
        (createFunction_params (ex_env (platform_conflict ''exists''))
           (ex_func\<lparr>triggers := Some [ex_timer]\<rparr>) ''UEsDBA=='' None)
       = Inl (ex_error ''ResourceInUse.FunctionName'' ''exists'')
   \<and> createFunction (ex_env (platform_conflict ''exists''))
        (ex_create_param (ex_func\<lparr>triggers := Some [ex_timer]\<rparr>) True) []
       = Some (Inr (CreateFunctionRes
                 \<lparr>triggerRes = Some [(''RequestId'', JStr ''BatchCreateTrigger'')],
                  configRes = [(''RequestId'', JStr ''UpdateFunctionConfiguration'')],
                  codeRes = [(''RequestId'', JStr ''UpdateFunctionCode'')]\<rparr>),
           [ex_create_request (Inl (ex_error ''ResourceInUse.FunctionName'' ''exists'')),
            ex_trigger_request (Inr [(''RequestId'', JStr ''BatchCreateTrigger'')]),
            ex_config_request (Inr [(''RequestId'', JStr ''UpdateFunctionConfiguration'')]),
            ex_code_request (Inr [(''RequestId'', JStr ''UpdateFunctionCode'')])])
   \<and> extends (only_actions reconcile_actions)
        [ex_create_request (Inl (ex_error ''ResourceInUse.FunctionName'' ''exists''))]
        [ex_create_request (Inl (ex_error ''ResourceInUse.FunctionName'' ''exists'')),
         ex_trigger_request (Inr [(''RequestId'', JStr ''BatchCreateTrigger'')]),
         ex_config_request (Inr [(''RequestId'', JStr ''UpdateFunctionConfiguration'')]),
         ex_code_request (Inr [(''RequestId'', JStr ''UpdateFunctionCode'')])]"
proof -
  let ?E = "ex_env (platform_conflict ''exists'')"
  let ?f = "ex_func\<lparr>triggers := Some [ex_timer]\<rparr>"
  let ?p = "ex_create_param ?f True"
  let ?e = "ex_error ''ResourceInUse.FunctionName'' ''exists''"
  let ?w2 = "[ex_create_request (Inl ?e)]"
  let ?w3 = "[ex_create_request (Inl ?e),
              ex_trigger_request (Inr [(''RequestId'', JStr ''BatchCreateTrigger'')])]"
  let ?w4 = "[ex_create_request (Inl ?e),
              ex_trigger_request (Inr [(''RequestId'', JStr ''BatchCreateTrigger'')]),
              ex_config_request (Inr [(''RequestId'', JStr ''UpdateFunctionConfiguration'')])]"
  let ?w5 = "[ex_create_request (Inl ?e),
              ex_trigger_request (Inr [(''RequestId'', JStr ''BatchCreateTrigger'')]),
              ex_config_request (Inr [(''RequestId'', JStr ''UpdateFunctionConfiguration'')]),
              ex_code_request (Inr [(''RequestId'', JStr ''UpdateFunctionCode'')])]"
  let ?res = "Inr (CreateFunctionRes
                 \<lparr>triggerRes = Some [(''RequestId'', JStr ''BatchCreateTrigger'')],
                  configRes = [(''RequestId'', JStr ''UpdateFunctionConfiguration'')],
                  codeRes = [(''RequestId'', JStr ''UpdateFunctionCode'')]\<rparr>)"
  have h1: "validCreateParams (func ?p) (codeSecret ?p) = Inr ()" by code_simp
  have h2: "packageCode ?E (func ?p) (Some (functionRootPath ?p)) (base64Code ?p) []
              = (Inr ''UEsDBA=='', [])" by code_simp
  have h3: "remote ?E [] ScfService ''CreateFunction''
              (createFunction_params ?E (func ?p) ''UEsDBA=='' (codeSecret ?p)) = Inl ?e"
    by code_simp
  have h4: "code ?e = Some ''ResourceInUse.FunctionName''" by code_simp
  have h5: "force ?p" by code_simp
  note T = conflict_with_force_reconciles[OF h1 h2 h3 h4 h5]
  have t: "createFunctionTriggers ?E (name (func ?p)) (triggers (func ?p))
             ([] @ [Request ScfService ''CreateFunction''
                      (createFunction_params ?E (func ?p) ''UEsDBA=='' (codeSecret ?p)) (Inl ?e)])
           = (Inr (Some [(''RequestId'', JStr ''BatchCreateTrigger'')]), ?w3)" by code_simp
  have c: "updateFunctionConfig ?E (func ?p) ?w3
           = (Inr [(''RequestId'', JStr ''UpdateFunctionConfiguration'')], ?w4)" by code_simp
  have u: "retryUpdateFunctionCode ?E
             \<lparr>u_func = func ?p, u_functionRootPath = Some (functionRootPath ?p),
              u_base64Code = Some ''UEsDBA=='', u_codeSecret = codeSecret ?p\<rparr> 0 ?w4
           = Some (Inr [(''RequestId'', JStr ''UpdateFunctionCode'')], ?w5)" by code_simp
  from T[THEN conjunct1] t c u have run: "createFunction ?E ?p [] = Some (?res, ?w5)"
    by simp
  have w2: "[] @ [Request ScfService ''CreateFunction''
                    (createFunction_params ?E (func ?p) ''UEsDBA=='' (codeSecret ?p)) (Inl ?e)] = ?w2"
    by code_simp
  from T[THEN conjunct2, THEN conjunct2, THEN conjunct2] run
  have "extends (only_actions reconcile_actions)
          ([] @ [Request ScfService ''CreateFunction''
                   (createFunction_params ?E (func ?p) ''UEsDBA=='' (codeSecret ?p)) (Inl ?e)]) ?w5"
    by blast
  then have ext: "extends (only_actions reconcile_actions) ?w2 ?w5"
    by (simp only: w2)
  have h1': "validCreateParams ?f None = Inr ()" by code_simp
  have h3': "remote ?E [] ScfService ''CreateFunction''
               (createFunction_params ?E ?f ''UEsDBA=='' None) = Inl ?e" by code_simp
  from h1' h3' run ext show ?thesis by (intro conjI)
qed

section \<open>Claim C2: the retry policy\<close>

text \<open>
  C2, as the code has it. The two retry wrappers repeat a failed attempt after a pause of
  500 milliseconds, up to four attempts: when the first two attempts fail and the third
  succeeds the wrapper succeeds (the code update with the result of the third), and when
  four attempts in a row fail the wrapper fails with the error of the fourth and stops.
  \<open>createFunction\<close> makes the \<open>CreateFunction\<close> request exactly once, whatever happens after
  it. After a successful create the triggers are created under the retry wrapper. On the
  reconcile path only the code update is under a retry wrapper, and when it fails for good
  \<open>createFunction\<close> fails with that error; the trigger creation and the configuration
  update of the reconcile path are attempted once, and a failure of either ends
  \<open>createFunction\<close> at once with that error.
\<close>

theorem retry_policy:
  "(createFunctionTriggers env fname trigs w = (Inl e1, w1)
      \<and> createFunctionTriggers env fname trigs (w1 @ [Sleep 500]) = (Inl e2, w2)
      \<and> createFunctionTriggers env fname trigs (w2 @ [Sleep 500]) = (Inr t3, w3) \<longrightarrow>
    retryCreateTrigger env fname trigs 0 w = (Inr (), w3))
   \<and> (createFunctionTriggers env fname trigs w = (Inl e1, w1)
      \<and> createFunctionTriggers env fname trigs (w1 @ [Sleep 500]) = (Inl e2, w2)
      \<and> createFunctionTriggers env fname trigs (w2 @ [Sleep 500]) = (Inl e3, w3)
      \<and> createFunctionTriggers env fname trigs (w3 @ [Sleep 500]) = (Inl e4, w4) \<longrightarrow>
    retryCreateTrigger env fname trigs 0 w = (Inl e4, w4))
   \<and> (updateFunctionCode env param w = Some (Inl e1, w1)
      \<and> updateFunctionCode env param (w1 @ [Sleep 500]) = Some (Inl e2, w2)
      \<and> updateFunctionCode env param (w2 @ [Sleep 500]) = Some (Inr u3, w3) \<longrightarrow>
    retryUpdateFunctionCode env param 0 w = Some (Inr u3, w3))
   \<and> (updateFunctionCode env param w = Some (Inl e1, w1)
      \<and> updateFunctionCode env param (w1 @ [Sleep 500]) = Some (Inl e2, w2)
      \<and> updateFunctionCode env param (w2 @ [Sleep 500]) = Some (Inl e3, w3)
      \<and> updateFunctionCode env param (w3 @ [Sleep 500]) = Some (Inl e4, w4) \<longrightarrow>
    retryUpdateFunctionCode env param 0 w = Some (Inl e4, w4))
   \<and> (validCreateParams (func p) (codeSecret p) = Inr ()
      \<and> packageCode env (func p) (Some (functionRootPath p)) (base64Code p) v = (Inr b, v1)
      \<and> createFunction env p v = Some (r, v') \<longrightarrow>
    count_action ''CreateFunction'' v' = count_action ''CreateFunction'' v + 1)
   \<and> (validCreateParams (func p) (codeSecret p) = Inr ()
      \<and> packageCode env (func p) (Some (functionRootPath p)) (base64Code p) v = (Inr b, v1)
      \<and> remote env v1 ScfService ''CreateFunction''
           (createFunction_params env (func p) b (codeSecret p)) = Inr res
      \<and> retryCreateTrigger env (name (func p)) (triggers (func p)) 0
           (v1 @ [Request ScfService ''CreateFunction''
                    (createFunction_params env (func p) b (codeSecret p)) (Inr res)]) = (Inr (), v2)
      \<and> isWaitInstall (func p) \<noteq> Some True \<longrightarrow>
    createFunction env p v = Some (Inr (ResponseInfo res), v2))
   \<and> (validCreateParams (func p) (codeSecret p) = Inr ()
      \<and> packageCode env (func p) (Some (functionRootPath p)) (base64Code p) v = (Inr b, v1)
      \<and> remote env v1 ScfService ''CreateFunction''
           (createFunction_params env (func p) b (codeSecret p)) = Inl e0
      \<and> code e0 = Some ''ResourceInUse.FunctionName'' \<and> force p
      \<and> createFunctionTriggers env (name (func p)) (triggers (func p))
           (v1 @ [Request ScfService ''CreateFunction''
                    (createFunction_params env (func p) b (codeSecret p)) (Inl e0)]) = (Inr tRes, v3)
      \<and> updateFunctionConfig env (func p) v3 = (Inr cRes, v4)
      \<and> retryUpdateFunctionCode env
           \<lparr>u_func = func p, u_functionRootPath = Some (functionRootPath p),
            u_base64Code = Some b, u_codeSecret = codeSecret p\<rparr> 0 v4 = Some (Inl e, v5) \<longrightarrow>
    createFunction env p v = Some (Inl e, v5))
   \<and> (validCreateParams (func p) (codeSecret p) = Inr ()
      \<and> packageCode env (func p) (Some (functionRootPath p)) (base64Code p) v = (Inr b, v1)
      \<and> remote env v1 ScfService ''CreateFunction''
           (createFunction_params env (func p) b (codeSecret p)) = Inl e0
      \<and> code e0 = Some ''ResourceInUse.FunctionName'' \<and> force p
      \<and> createFunctionTriggers env (name (func p)) (triggers (func p))
           (v1 @ [Request ScfService ''CreateFunction''
                    (createFunction_params env (func p) b (codeSecret p)) (Inl e0)]) = (Inl e, v3) \<longrightarrow>
    createFunction env p v = Some (Inl e, v3))
   \<and> (validCreateParams (func p) (codeSecret p) = Inr ()
      \<and> packageCode env (func p) (Some (functionRootPath p)) (base64Code p) v = (Inr b, v1)
      \<and> remote env v1 ScfService ''CreateFunction''
           (createFunction_params env (func p) b (codeSecret p)) = Inl e0
      \<and> code e0 = Some ''ResourceInUse.FunctionName'' \<and> force p
      \<and> createFunctionTriggers env (name (func p)) (triggers (func p))
           (v1 @ [Request ScfService ''CreateFunction''
                    (createFunction_params env (func p) b (codeSecret p)) (Inl e0)]) = (Inr tRes, v3)
      \<and> updateFunctionConfig env (func p) v3 = (Inl e, v4) \<longrightarrow>
    createFunction env p v = Some (Inl e, v4))"
proof (intro conjI impI)
  assume "createFunctionTriggers env fname trigs w = (Inl e1, w1)
      \<and> createFunctionTriggers env fname trigs (w1 @ [Sleep 500]) = (Inl e2, w2)
      \<and> createFunctionTriggers env fname trigs (w2 @ [Sleep 500]) = (Inr t3, w3)"
  then show "retryCreateTrigger env fname trigs 0 w = (Inr (), w3)"
    by (blast intro: retryCreateTrigger_third)
next
  assume "createFunctionTriggers env fname trigs w = (Inl e1, w1)
      \<and> createFunctionTriggers env fname trigs (w1 @ [Sleep 500]) = (Inl e2, w2)
      \<and> createFunctionTriggers env fname trigs (w2 @ [Sleep 500]) = (Inl e3, w3)
      \<and> createFunctionTriggers env fname trigs (w3 @ [Sleep 500]) = (Inl e4, w4)"
  then show "retryCreateTrigger env fname trigs 0 w = (Inl e4, w4)"
    by (blast intro: retryCreateTrigger_fourth)
next
  assume "updateFunctionCode env param w = Some (Inl e1, w1)
      \<and> updateFunctionCode env param (w1 @ [Sleep 500]) = Some (Inl e2, w2)
      \<and> updateFunctionCode env param (w2 @ [Sleep 500]) = Some (Inr u3, w3)"
  then show "retryUpdateFunctionCode env param 0 w = Some (Inr u3, w3)"
    by (blast intro: retryUpdateFunctionCode_third)
next
  assume "updateFunctionCode env param w = Some (Inl e1, w1)
      \<and> updateFunctionCode env param (w1 @ [Sleep 500]) = Some (Inl e2, w2)
      \<and> updateFunctionCode env param (w2 @ [Sleep 500]) = Some (Inl e3, w3)
      \<and> updateFunctionCode env param (w3 @ [Sleep 500]) = Some (Inl e4, w4)"
  then show "retryUpdateFunctionCode env param 0 w = Some (Inl e4, w4)"
    by (blast intro: retryUpdateFunctionCode_fourth)
next
  assume "validCreateParams (func p) (codeSecret p) = Inr ()
      \<and> packageCode env (func p) (Some (functionRootPath p)) (base64Code p) v = (Inr b, v1)
      \<and> createFunction env p v = Some (r, v')"
  then show "count_action ''CreateFunction'' v' = count_action ''CreateFunction'' v + 1"
    by (blast intro: createFunction_one_create_request)
next
  assume "validCreateParams (func p) (codeSecret p) = Inr ()
      \<and> packageCode env (func p) (Some (functionRootPath p)) (base64Code p) v = (Inr b, v1)
      \<and> remote env v1 ScfService ''CreateFunction''
           (createFunction_params env (func p) b (codeSecret p)) = Inr res
      \<and> retryCreateTrigger env (name (func p)) (triggers (func p)) 0
           (v1 @ [Request ScfService ''CreateFunction''
                    (createFunction_params env (func p) b (codeSecret p)) (Inr res)]) = (Inr (), v2)
      \<and> isWaitInstall (func p) \<noteq> Some True"
  then show "createFunction env p v = Some (Inr (ResponseInfo res), v2)"
    by (blast intro: createFunction_created)
next
  assume h: "validCreateParams (func p) (codeSecret p) = Inr ()
      \<and> packageCode env (func p) (Some (functionRootPath p)) (base64Code p) v = (Inr b, v1)
      \<and> remote env v1 ScfService ''CreateFunction''
           (createFunction_params env (func p) b (codeSecret p)) = Inl e0
      \<and> code e0 = Some ''ResourceInUse.FunctionName'' \<and> force p
      \<and> createFunctionTriggers env (name (func p)) (triggers (func p))
           (v1 @ [Request ScfService ''CreateFunction''
                    (createFunction_params env (func p) b (codeSecret p)) (Inl e0)]) = (Inr tRes, v3)
      \<and> updateFunctionConfig env (func p) v3 = (Inr cRes, v4)
      \<and> retryUpdateFunctionCode env
           \<lparr>u_func = func p, u_functionRootPath = Some (functionRootPath p),
            u_base64Code = Some b, u_codeSecret = codeSecret p\<rparr> 0 v4 = Some (Inl e, v5)"
  then have "createFunction env p v =
     (case createFunctionTriggers env (name (func p)) (triggers (func p))
             (v1 @ [Request ScfService ''CreateFunction''
                      (createFunction_params env (func p) b (codeSecret p)) (Inl e0)]) of
        (Inl e1, w3) \<Rightarrow> Some (Inl e1, w3)
      | (Inr tRes, w3) \<Rightarrow>
         (case updateFunctionConfig env (func p) w3 of
            (Inl e2, w4) \<Rightarrow> Some (Inl e2, w4)
          | (Inr cRes, w4) \<Rightarrow>
             (case retryUpdateFunctionCode env
                     \<lparr>u_func = func p, u_functionRootPath = Some (functionRootPath p),
                      u_base64Code = Some b, u_codeSecret = codeSecret p\<rparr> 0 w4 of
                None \<Rightarrow> None
              | Some (Inl e3, w5) \<Rightarrow> Some (Inl e3, w5)
              | Some (Inr uRes, w5) \<Rightarrow>
                  Some (Inr (CreateFunctionRes
                          \<lparr>triggerRes = tRes, configRes = cRes, codeRes = uRes\<rparr>), w5))))"
    by (intro createFunction_conflict_force) simp_all
  with h show "createFunction env p v = Some (Inl e, v5)" by simp
next
  assume h: "validCreateParams (func p) (codeSecret p) = Inr ()
      \<and> packageCode env (func p) (Some (functionRootPath p)) (base64Code p) v = (Inr b, v1)
      \<and> remote env v1 ScfService ''CreateFunction''
           (createFunction_params env (func p) b (codeSecret p)) = Inl e0
      \<and> code e0 = Some ''ResourceInUse.FunctionName'' \<and> force p
      \<and> createFunctionTriggers env (name (func p)) (triggers (func p))
           (v1 @ [Request ScfService ''CreateFunction''
                    (createFunction_params env (func p) b (codeSecret p)) (Inl e0)]) = (Inl e, v3)"
  then have "createFunction env p v =
     (case createFunctionTriggers env (name (func p)) (triggers (func p))
             (v1 @ [Request ScfService ''CreateFunction''
                      (createFunction_params env (func p) b (codeSecret p)) (Inl e0)]) of
        (Inl e1, w3) \<Rightarrow> Some (Inl e1, w3)
      | (Inr tRes, w3) \<Rightarrow>
         (case updateFunctionConfig env (func p) w3 of
            (Inl e2, w4) \<Rightarrow> Some (Inl e2, w4)
          | (Inr cRes, w4) \<Rightarrow>
             (case retryUpdateFunctionCode env
                     \<lparr>u_func = func p, u_functionRootPath = Some (functionRootPath p),
                      u_base64Code = Some b, u_codeSecret = codeSecret p\<rparr> 0 w4 of
                None \<Rightarrow> None
              | Some (Inl e3, w5) \<Rightarrow> Some (Inl e3, w5)
              | Some (Inr uRes, w5) \<Rightarrow>
                  Some (Inr (CreateFunctionRes
                          \<lparr>triggerRes = tRes, configRes = cRes, codeRes = uRes\<rparr>), w5))))"
    by (intro createFunction_conflict_force) simp_all
  with h show "createFunction env p v = Some (Inl e, v3)" by simp
next
  assume h: "validCreateParams (func p) (codeSecret p) = Inr ()
      \<and> packageCode env (func p) (Some (functionRootPath p)) (base64Code p) v = (Inr b, v1)
      \<and> remote env v1 ScfService ''CreateFunction''
           (createFunction_params env (func p) b (codeSecret p)) = Inl e0
      \<and> code e0 = Some ''ResourceInUse.FunctionName'' \<and> force p
      \<and> createFunctionTriggers env (name (func p)) (triggers (func p))
           (v1 @ [Request ScfService ''CreateFunction''
                    (createFunction_params env (func p) b (codeSecret p)) (Inl e0)]) = (Inr tRes, v3)
      \<and> updateFunctionConfig env (func p) v3 = (Inl e, v4)"
  then have "createFunction env p v =
     (case createFunctionTriggers env (name (func p)) (triggers (func p))
             (v1 @ [Request ScfService ''CreateFunction''
                      (createFunction_params env (func p) b (codeSecret p)) (Inl e0)]) of
        (Inl e1, w3) \<Rightarrow> Some (Inl e1, w3)
      | (Inr tRes, w3) \<Rightarrow>
         (case updateFunctionConfig env (func p) w3 of
            (Inl e2, w4) \<Rightarrow> Some (Inl e2, w4)
          | (Inr cRes, w4) \<Rightarrow>
             (case retryUpdateFunctionCode env
                     \<lparr>u_func = func p, u_functionRootPath = Some (functionRootPath p),
                      u_base64Code = Some b, u_codeSecret = codeSecret p\<rparr> 0 w4 of
                None \<Rightarrow> None
              | Some (Inl e3, w5) \<Rightarrow> Some (Inl e3, w5)
              | Some (Inr uRes, w5) \<Rightarrow>
                  Some (Inr (CreateFunctionRes
                          \<lparr>triggerRes = tRes, configRes = cRes, codeRes = uRes\<rparr>), w5))))"
    by (intro createFunction_conflict_force) simp_all
  with h show "createFunction env p v = Some (Inl e, v4)" by simp
qed

text \<open>
  The claim read as "trigger creation is retried wherever it happens" fails on the
  reconcile path: on a platform where only the first \<open>BatchCreateTrigger\<close> request fails,
  \<open>createFunction\<close> under \<open>force\<close> gives up after that one request, though a second attempt
  after the pause would have succeeded.
\<close>

theorem reconcile_trigger_not_retried_counterexample:
  "createFunction (ex_env (platform_flaky True 1 ''BatchCreateTrigger''))
       (ex_create_param (ex_func\<lparr>triggers := Some [ex_timer]\<rparr>) True) []
     = Some (Inl (ex_failure ''x''),
        [ex_create_request (Inl (ex_error ''ResourceInUse.FunctionName'' ''exists'')),
         ex_trigger_request (Inl (ex_failure ''x''))])
   \<and> createFunctionTriggers (ex_env (platform_flaky True 1 ''BatchCreateTrigger'')) ''f''
       (Some [ex_timer])
       [ex_create_request (Inl (ex_error ''ResourceInUse.FunctionName'' ''exists'')),
        ex_trigger_request (Inl (ex_failure ''x'')), Sleep 500]
     = (Inr (Some [(''RequestId'', JStr ''BatchCreateTrigger'')]),
        [ex_create_request (Inl (ex_error ''ResourceInUse.FunctionName'' ''exists'')),
         ex_trigger_request (Inl (ex_failure ''x'')), Sleep 500,
         ex_trigger_request (Inr [(''RequestId'', JStr ''BatchCreateTrigger'')])])"
  by code_simp

theorem retry_policy_witness:
  "retryCreateTrigger (ex_env (platform_flaky False 2 ''BatchCreateTrigger'')) ''f''
       (Some [ex_timer]) 0 []
     = (Inr (),
        [ex_trigger_request (Inl (ex_failure ''x'')), Sleep 500,
         ex_trigger_request (Inl (ex_failure ''xx'')), Sleep 500,
         ex_trigger_request (Inr [(''RequestId'', JStr ''BatchCreateTrigger'')])])
   \<and> retryCreateTrigger (ex_env (platform_flaky False 4 ''BatchCreateTrigger'')) ''f''
       (Some [ex_timer]) 0 []
     = (Inl (ex_failure ''xxxx''),
        [ex_trigger_request (Inl (ex_failure ''x'')), Sleep 500,
         ex_trigger_request (Inl (ex_failure ''xx'')), Sleep 500,
         ex_trigger_request (Inl (ex_failure ''xxx'')), Sleep 500,
         ex_trigger_request (Inl (ex_failure ''xxxx''))])
   \<and> retryUpdateFunctionCode (ex_env (platform_flaky True 2 ''UpdateFunctionCode''))
       ex_update_param 0 []
     = Some (Inr [(''RequestId'', JStr ''UpdateFunctionCode'')],
        [ex_code_request (Inl (ex_failure ''x'')), Sleep 500,
         ex_code_request (Inl (ex_failure ''xx'')), Sleep 500,
         ex_code_request (Inr [(''RequestId'', JStr ''UpdateFunctionCode'')])])
   \<and> retryUpdateFunctionCode (ex_env (platform_flaky True 4 ''UpdateFunctionCode''))
       ex_update_param 0 []
     = Some (Inl (ex_code_failure ''xxxx''),
        [ex_code_request (Inl (ex_failure ''x'')), Sleep 500,
         ex_code_request (Inl (ex_failure ''xx'')), Sleep 500,
         ex_code_request (Inl (ex_failure ''xxx'')), Sleep 500,
         ex_code_request (Inl (ex_failure ''xxxx''))])
   \<and> createFunction (ex_env (platform_flaky True 4 ''UpdateFunctionCode''))
       (ex_create_param ex_func True) []
     = Some (Inl (ex_code_failure ''xxxx''),
        [ex_create_request (Inl (ex_error ''ResourceInUse.FunctionName'' ''exists'')),
         ex_config_request (Inr [(''RequestId'', JStr ''UpdateFunctionConfiguration'')]),
         ex_code_request (Inl (ex_failure ''x'')), Sleep 500,
         ex_code_request (Inl (ex_failure ''xx'')), Sleep 500,
         ex_code_request (Inl (ex_failure ''xxx'')), Sleep 500,
         ex_code_request (Inl (ex_failure ''xxxx''))])
   \<and> count_action ''CreateFunction''
        [ex_create_request (Inl (ex_error ''ResourceInUse.FunctionName'' ''exists'')),
         ex_config_request (Inr [(''RequestId'', JStr ''UpdateFunctionConfiguration'')]),
         ex_code_request (Inl (ex_failure ''x'')), Sleep 500,
         ex_code_request (Inl (ex_failure ''xx'')), Sleep 500,
         ex_code_request (Inl (ex_failure ''xxx'')), Sleep 500,
         ex_code_request (Inl (ex_failure ''xxxx''))] = 1
   \<and> createFunction (ex_env (platform_flaky False 2 ''BatchCreateTrigger''))
       (ex_create_param (ex_func\<lparr>triggers := Some [ex_timer]\<rparr>) False) []
     = Some (Inr (ResponseInfo [(''RequestId'', JStr ''CreateFunction'')]),
        [ex_create_request (Inr [(''RequestId'', JStr ''CreateFunction'')]),
         ex_trigger_request (Inl (ex_failure ''x'')), Sleep 500,
         ex_trigger_request (Inl (ex_failure ''xx'')), Sleep 500,
         ex_trigger_request (Inr [(''RequestId'', JStr ''BatchCreateTrigger'')])])
   \<and> createFunction (ex_env (platform_flaky True 1 ''UpdateFunctionConfiguration''))
       (ex_create_param ex_func True) []
     = Some (Inl (ex_failure ''x''),
        [ex_create_request (Inl (ex_error ''ResourceInUse.FunctionName'' ''exists'')),
         ex_config_request (Inl (ex_failure ''x''))])"
proof -
  let ?A = "ex_env (platform_flaky False 2 ''BatchCreateTrigger'')"
  let ?B = "ex_env (platform_flaky False 4 ''BatchCreateTrigger'')"
  let ?C = "ex_env (platform_flaky True 2 ''UpdateFunctionCode'')"
  let ?D = "ex_env (platform_flaky True 4 ''UpdateFunctionCode'')"
  let ?tr = "Some [ex_timer]"
  let ?t1 = "[ex_trigger_request (Inl (ex_failure ''x''))]"
  let ?t2 = "[ex_trigger_request (Inl (ex_failure ''x'')), Sleep 500,
              ex_trigger_request (Inl (ex_failure ''xx''))]"
  let ?t3 = "[ex_trigger_request (Inl (ex_failure ''x'')), Sleep 500,
              ex_trigger_request (Inl (ex_failure ''xx'')), Sleep 500,
              ex_trigger_request (Inl (ex_failure ''xxx''))]"
  let ?t4 = "[ex_trigger_request (Inl (ex_failure ''x'')), Sleep 500,
              ex_trigger_request (Inl (ex_failure ''xx'')), Sleep 500,
              ex_trigger_request (Inl (ex_failure ''xxx'')), Sleep 500,
              ex_trigger_request (Inl (ex_failure ''xxxx''))]"
  let ?t3ok = "[ex_trigger_request (Inl (ex_failure ''x'')), Sleep 500,
              ex_trigger_request (Inl (ex_failure ''xx'')), Sleep 500,
              ex_trigger_request (Inr [(''RequestId'', JStr ''BatchCreateTrigger'')])]"
  let ?c1 = "[ex_code_request (Inl (ex_failure ''x''))]"
  let ?c2 = "[ex_code_request (Inl (ex_failure ''x'')), Sleep 500,
              ex_code_request (Inl (ex_failure ''xx''))]"
  let ?c3 = "[ex_code_request (Inl (ex_failure ''x'')), Sleep 500,
              ex_code_request (Inl (ex_failure ''xx'')), Sleep 500,
              ex_code_request (Inl (ex_failure ''xxx''))]"
  let ?c4 = "[ex_code_request (Inl (ex_failure ''x'')), Sleep 500,
              ex_code_request (Inl (ex_failure ''xx'')), Sleep 500,
              ex_code_request (Inl (ex_failure ''xxx'')), Sleep 500,
              ex_code_request (Inl (ex_failure ''xxxx''))]"
  let ?c3ok = "[ex_code_request (Inl (ex_failure ''x'')), Sleep 500,
              ex_code_request (Inl (ex_failure ''xx'')), Sleep 500,
              ex_code_request (Inr [(''RequestId'', JStr ''UpdateFunctionCode'')])]"
  let ?conflict = "ex_error ''ResourceInUse.FunctionName'' ''exists''"
  let ?cfg = "[(''RequestId'', JStr ''UpdateFunctionConfiguration'')]"
  let ?d2 = "[ex_create_request (Inl ?conflict), ex_config_request (Inr ?cfg)]"
  let ?d6 = "[ex_create_request (Inl ?conflict), ex_config_request (Inr ?cfg),
              ex_code_request (Inl (ex_failure ''x'')), Sleep 500,
              ex_code_request (Inl (ex_failure ''xx'')), Sleep 500,
              ex_code_request (Inl (ex_failure ''xxx'')), Sleep 500,
              ex_code_request (Inl (ex_failure ''xxxx''))]"
  let ?created = "[(''RequestId'', JStr ''CreateFunction'')]"
  let ?a4 = "[ex_create_request (Inr ?created),
              ex_trigger_request (Inl (ex_failure ''x'')), Sleep 500,
              ex_trigger_request (Inl (ex_failure ''xx'')), Sleep 500,
              ex_trigger_request (Inr [(''RequestId'', JStr ''BatchCreateTrigger'')])]"
  let ?pD = "ex_create_param ex_func True"
  let ?fA = "ex_func\<lparr>triggers := Some [ex_timer]\<rparr>"
  let ?pA = "ex_create_param ?fA False"

  text \<open>Triggers: two failures, then a success.\<close>
  have a1: "createFunctionTriggers ?A ''f'' ?tr [] = (Inl (ex_failure ''x''), ?t1)"
    by code_simp
  have a2: "createFunctionTriggers ?A ''f'' ?tr (?t1 @ [Sleep 500]) = (Inl (ex_failure ''xx''), ?t2)"
    by code_simp
  have a3: "createFunctionTriggers ?A ''f'' ?tr (?t2 @ [Sleep 500])
              = (Inr (Some [(''RequestId'', JStr ''BatchCreateTrigger'')]), ?t3ok)"
    by code_simp
  have r1: "retryCreateTrigger ?A ''f'' ?tr 0 [] = (Inr (), ?t3ok)"
    by (rule retry_policy
        [where env = ?A and fname = "''f''" and trigs = ?tr and w = "[]"
           and ?e1.0 = "ex_failure ''x''" and ?w1.0 = ?t1
           and ?e2.0 = "ex_failure ''xx''" and ?w2.0 = ?t2
           and ?t3.0 = "Some [(''RequestId'', JStr ''BatchCreateTrigger'')]" and ?w3.0 = ?t3ok,
         THEN conjunct1, THEN mp])
      (intro conjI a1 a2 a3)

  text \<open>Triggers: four failures.\<close>
  have b1: "createFunctionTriggers ?B ''f'' ?tr [] = (Inl (ex_failure ''x''), ?t1)"
    by code_simp
  have b2: "createFunctionTriggers ?B ''f'' ?tr (?t1 @ [Sleep 500]) = (Inl (ex_failure ''xx''), ?t2)"
    by code_simp
  have b3: "createFunctionTriggers ?B ''f'' ?tr (?t2 @ [Sleep 500]) = (Inl (ex_failure ''xxx''), ?t3)"
    by code_simp
  have b4: "createFunctionTriggers ?B ''f'' ?tr (?t3 @ [Sleep 500]) = (Inl (ex_failure ''xxxx''), ?t4)"
    by code_simp
  have r2: "retryCreateTrigger ?B ''f'' ?tr 0 [] = (Inl (ex_failure ''xxxx''), ?t4)"
    by (rule retry_policy
        [where env = ?B and fname = "''f''" and trigs = ?tr and w = "[]"
           and ?e1.0 = "ex_failure ''x''" and ?w1.0 = ?t1
           and ?e2.0 = "ex_failure ''xx''" and ?w2.0 = ?t2
           and ?e3.0 = "ex_failure ''xxx''" and ?w3.0 = ?t3
           and ?e4.0 = "ex_failure ''xxxx''" and ?w4.0 = ?t4,
         THEN conjunct2, THEN conjunct1, THEN mp])
      (intro conjI b1 b2 b3 b4)

  text \<open>Code update: two failures, then a success.\<close>
  have c1: "updateFunctionCode ?C ex_update_param [] = Some (Inl (ex_code_failure ''x''), ?c1)"
    by code_simp
  have c2: "updateFunctionCode ?C ex_update_param (?c1 @ [Sleep 500])
              = Some (Inl (ex_code_failure ''xx''), ?c2)"
    by code_simp
  have c3: "updateFunctionCode ?C ex_update_param (?c2 @ [Sleep 500])
              = Some (Inr [(''RequestId'', JStr ''UpdateFunctionCode'')], ?c3ok)"
    by code_simp
  have r3: "retryUpdateFunctionCode ?C ex_update_param 0 []
              = Some (Inr [(''RequestId'', JStr ''UpdateFunctionCode'')], ?c3ok)"
    by (rule retry_policy
        [where env = ?C and param = ex_update_param and w = "[]"
           and ?e1.0 = "ex_code_failure ''x''" and ?w1.0 = ?c1
           and ?e2.0 = "ex_code_failure ''xx''" and ?w2.0 = ?c2
           and ?u3.0 = "[(''RequestId'', JStr ''UpdateFunctionCode'')]" and ?w3.0 = ?c3ok,
         THEN conjunct2, THEN conjunct2, THEN conjunct1, THEN mp])
      (intro conjI c1 c2 c3)

  text \<open>Code update: four failures.\<close>
  have d1: "updateFunctionCode ?D ex_update_param [] = Some (Inl (ex_code_failure ''x''), ?c1)"
    by code_simp
  have d2: "updateFunctionCode ?D ex_update_param (?c1 @ [Sleep 500])
              = Some (Inl (ex_code_failure ''xx''), ?c2)"
    by code_simp
  have d3: "updateFunctionCode ?D ex_update_param (?c2 @ [Sleep 500])
              = Some (Inl (ex_code_failure ''xxx''), ?c3)"
    by code_simp
  have d4: "updateFunctionCode ?D ex_update_param (?c3 @ [Sleep 500])
              = Some (Inl (ex_code_failure ''xxxx''), ?c4)"
    by code_simp
  have r4: "retryUpdateFunctionCode ?D ex_update_param 0 [] = Some (Inl (ex_code_failure ''xxxx''), ?c4)"
    by (rule retry_policy
        [where env = ?D and param = ex_update_param and w = "[]"
           and ?e1.0 = "ex_code_failure ''x''" and ?w1.0 = ?c1
           and ?e2.0 = "ex_code_failure ''xx''" and ?w2.0 = ?c2
           and ?e3.0 = "ex_code_failure ''xxx''" and ?w3.0 = ?c3
           and ?e4.0 = "ex_code_failure ''xxxx''" and ?w4.0 = ?c4,
         THEN conjunct2, THEN conjunct2, THEN conjunct2, THEN conjunct1, THEN mp])
      (intro conjI d1 d2 d3 d4)

  text \<open>Reconcile: the code update fails for good, and so does \<open>createFunction\<close>.\<close>
  have v: "validCreateParams (func ?pD) (codeSecret ?pD) = Inr ()" by code_simp
  have k: "packageCode ?D (func ?pD) (Some (functionRootPath ?pD)) (base64Code ?pD) []
             = (Inr ''UEsDBA=='', [])" by code_simp
  have f: "remote ?D [] ScfService ''CreateFunction''
             (createFunction_params ?D (func ?pD) ''UEsDBA=='' (codeSecret ?pD)) = Inl ?conflict"
    by code_simp
  have cf: "code ?conflict = Some ''ResourceInUse.FunctionName''" "force ?pD" by code_simp+
  have tg: "createFunctionTriggers ?D (name (func ?pD)) (triggers (func ?pD))
             ([] @ [Request ScfService ''CreateFunction''
                      (createFunction_params ?D (func ?pD) ''UEsDBA=='' (codeSecret ?pD))
                      (Inl ?conflict)])
            = (Inr None, [ex_create_request (Inl ?conflict)])" by code_simp
  have cg: "updateFunctionConfig ?D (func ?pD) [ex_create_request (Inl ?conflict)] = (Inr ?cfg, ?d2)"
    by code_simp
  have up: "retryUpdateFunctionCode ?D
              \<lparr>u_func = func ?pD, u_functionRootPath = Some (functionRootPath ?pD),
               u_base64Code = Some ''UEsDBA=='', u_codeSecret = codeSecret ?pD\<rparr> 0 ?d2
            = Some (Inl (ex_code_failure ''xxxx''), ?d6)" by code_simp
  have r7: "createFunction ?D ?pD [] = Some (Inl (ex_code_failure ''xxxx''), ?d6)"
    by (rule retry_policy
        [where env = ?D and p = ?pD and v = "[]" and b = "''UEsDBA==''" and ?v1.0 = "[]"
           and ?e0.0 = ?conflict and tRes = None and ?v3.0 = "[ex_create_request (Inl ?conflict)]"
           and cRes = ?cfg and ?v4.0 = ?d2 and e = "ex_code_failure ''xxxx''" and ?v5.0 = ?d6,
         THEN conjunct2, THEN conjunct2, THEN conjunct2, THEN conjunct2, THEN conjunct2,
         THEN conjunct2, THEN conjunct1, THEN mp])
      (intro conjI v k f cf tg cg up)
  have r5: "count_action ''CreateFunction'' ?d6 = count_action ''CreateFunction'' [] + 1"
    by (rule retry_policy
        [where env = ?D and p = ?pD and v = "[]" and b = "''UEsDBA==''" and ?v1.0 = "[]"
           and r = "Inl (ex_code_failure ''xxxx'')" and v' = ?d6,
         THEN conjunct2, THEN conjunct2, THEN conjunct2, THEN conjunct2, THEN conjunct1, THEN mp])
      (intro conjI v k r7)

  text \<open>Create path: the triggers are retried after a successful create.\<close>
  have v': "validCreateParams (func ?pA) (codeSecret ?pA) = Inr ()" by code_simp
  have k': "packageCode ?A (func ?pA) (Some (functionRootPath ?pA)) (base64Code ?pA) []
             = (Inr ''UEsDBA=='', [])" by code_simp
  have f': "remote ?A [] ScfService ''CreateFunction''
             (createFunction_params ?A (func ?pA) ''UEsDBA=='' (codeSecret ?pA)) = Inr ?created"
    by code_simp
  have tg': "retryCreateTrigger ?A (name (func ?pA)) (triggers (func ?pA)) 0
             ([] @ [Request ScfService ''CreateFunction''
                      (createFunction_params ?A (func ?pA) ''UEsDBA=='' (codeSecret ?pA))
                      (Inr ?created)])
            = (Inr (), ?a4)" by code_simp
  have nw: "isWaitInstall (func ?pA) \<noteq> Some True" by code_simp
  have r6: "createFunction ?A ?pA [] = Some (Inr (ResponseInfo ?created), ?a4)"
    by (rule retry_policy
        [where env = ?A and p = ?pA and v = "[]" and b = "''UEsDBA==''" and ?v1.0 = "[]"
           and res = ?created and ?v2.0 = ?a4,
         THEN conjunct2, THEN conjunct2, THEN conjunct2, THEN conjunct2, THEN conjunct2,
         THEN conjunct1, THEN mp])
      (intro conjI v' k' f' tg' nw)

  text \<open>Reconcile: the configuration update is not retried.\<close>
  let ?G = "ex_env (platform_flaky True 1 ''UpdateFunctionConfiguration'')"
  have vG: "validCreateParams (func ?pD) (codeSecret ?pD) = Inr ()" by code_simp
  have kG: "packageCode ?G (func ?pD) (Some (functionRootPath ?pD)) (base64Code ?pD) []
             = (Inr ''UEsDBA=='', [])" by code_simp
  have fG: "remote ?G [] ScfService ''CreateFunction''
             (createFunction_params ?G (func ?pD) ''UEsDBA=='' (codeSecret ?pD)) = Inl ?conflict"
    by code_simp
  have tG: "createFunctionTriggers ?G (name (func ?pD)) (triggers (func ?pD))
             ([] @ [Request ScfService ''CreateFunction''
                      (createFunction_params ?G (func ?pD) ''UEsDBA=='' (codeSecret ?pD))
                      (Inl ?conflict)])
            = (Inr None, [ex_create_request (Inl ?conflict)])" by code_simp
  have cG: "updateFunctionConfig ?G (func ?pD) [ex_create_request (Inl ?conflict)]
            = (Inl (ex_failure ''x''),
               [ex_create_request (Inl ?conflict), ex_config_request (Inl (ex_failure ''x''))])"
    by code_simp
  have r9: "createFunction ?G ?pD [] = Some (Inl (ex_failure ''x''),
               [ex_create_request (Inl ?conflict), ex_config_request (Inl (ex_failure ''x''))])"
    by (rule retry_policy
        [where env = ?G and p = ?pD and v = "[]" and b = "''UEsDBA==''" and ?v1.0 = "[]"
           and ?e0.0 = ?conflict and tRes = None and ?v3.0 = "[ex_create_request (Inl ?conflict)]"
           and e = "ex_failure ''x''"
           and ?v4.0 = "[ex_create_request (Inl ?conflict), ex_config_request (Inl (ex_failure ''x''))]",
         THEN conjunct2, THEN conjunct2, THEN conjunct2, THEN conjunct2, THEN conjunct2,
         THEN conjunct2, THEN conjunct2, THEN conjunct2, THEN mp])
      (intro conjI vG kG fG cf tG cG)

  from r5 have r5': "count_action ''CreateFunction'' ?d6 = 1" by (simp add: count_action_def)
  from r1 r2 r3 r4 r7 r5' r6 r9 show ?thesis by (intro conjI)
qed

section \<open>Claim C3: a conflict without \<open>force\<close>\<close>

text \<open>
  C3, as the code has it: when the \<open>CreateFunction\<close> request fails with the code
  \<open>ResourceInUse.FunctionName\<close> and \<open>force\<close> is false, \<open>createFunction\<close> raises an error
  with the code and the request id of the platform's error, and the \<open>CreateFunction\<close>
  request is the last thing it does: no trigger, configuration or code request follows.
  When the platform's message is not empty the error raised is a new one whose message is
  \<open>[name]\<close>, the deployment-failed text and the platform's message; when it is empty, the
  platform's error is raised again as it is.
\<close>

theorem conflict_without_force_is_fatal:
  assumes "validCreateParams (func p) (codeSecret p) = Inr ()"
    and "packageCode env (func p) (Some (functionRootPath p)) (base64Code p) w = (Inr b, w1)"
    and "remote env w1 ScfService ''CreateFunction''
           (createFunction_params env (func p) b (codeSecret p)) = Inl e"
    and "code e = Some ''ResourceInUse.FunctionName''"
    and "\<not> force p"
  shows "\<exists>e'. createFunction env p w =
              Some (Inl e', w1 @ [Request ScfService ''CreateFunction''
                                    (createFunction_params env (func p) b (codeSecret p)) (Inl e)])
           \<and> code e' = code e \<and> requestId e' = requestId e
           \<and> (if message e = [] then e' = e
               else message e' = ''['' @ name (func p) @ '']'' @ msg_deploy_failed @ message e)"
  using assms
  by (simp add: createFunction_def createFunction_try_def createFunction_catch_def request_def Let_def)

text \<open>
  The claim as stated fails for a conflict error with an empty message: the guard
  \<open>e.message && !force\<close> is false, and the error raised is the platform's own, whose
  message does not name the function.
\<close>

theorem conflict_empty_message_counterexample:
  "createFunction (ex_env (platform_conflict []))
      \<lparr>func = ex_func, functionRootPath = ''./functions'', force = False,
       base64Code = Some ''UEsDBA=='', codeSecret = None\<rparr> []
     = Some (Inl \<lparr>message = [], code = Some ''ResourceInUse.FunctionName'',
                  requestId = Some ''req-1''\<rparr>,
        [Request ScfService ''CreateFunction''
           [(''FunctionName'', JStr ''f''), (''Namespace'', JStr ''ns''),
            (''Code'', JObj [(''ZipFile'', JStr ''UEsDBA=='')]), (''MemorySize'', JNum 256),
            (''Role'', JStr ''TCB_QcsRole''), (''Stamp'', JStr ''MINI_QCBASE''),
            (''L5Enable'', JNull), (''Handler'', JStr ''index.main''), (''Timeout'', JNum 20),
            (''Runtime'', JStr ''Nodejs8.9''),
            (''VpcConfig'', JObj [(''SubnetId'', JStr []), (''VpcId'', JStr [])]),
            (''InstallDependency'', JStr ''FALSE''),
            (''EipConfig'', JObj [(''EipFixed'', JStr ''FALSE'')])]
           (Inl \<lparr>message = [], code = Some ''ResourceInUse.FunctionName'',
                  requestId = Some ''req-1''\<rparr>)])"
  by code_simp

theorem conflict_without_force_is_fatal_witness:
  "validCreateParams ex_func None = Inr ()
   \<and> packageCode (ex_env (platform_conflict ''exists'')) ex_func (Some ''./functions'')
        (Some ''UEsDBA=='') [] = (Inr ''UEsDBA=='', [])
   \<and> remote (ex_env (platform_conflict ''exists'')) [] ScfService ''CreateFunction''
        (createFunction_params (ex_env (platform_conflict ''exists'')) ex_func ''UEsDBA=='' None)
       = Inl (ex_error ''ResourceInUse.FunctionName'' ''exists'')
   \<and> createFunction (ex_env (platform_conflict ''exists''))
        \<lparr>func = ex_func, functionRootPath = ''./functions'', force = False,
         base64Code = Some ''UEsDBA=='', codeSecret = None\<rparr> []
       = Some (Inl \<lparr>message = ''[f]'' @ msg_deploy_failed @ ''exists'',
                    code = Some ''ResourceInUse.FunctionName'', requestId = Some ''req-1''\<rparr>,
           [Request ScfService ''CreateFunction''
              (createFunction_params (ex_env (platform_conflict ''exists'')) ex_func ''UEsDBA=='' None)
              (Inl (ex_error ''ResourceInUse.FunctionName'' ''exists''))])"
proof -
  let ?env = "ex_env (platform_conflict ''exists'')"
  let ?p = "\<lparr>func = ex_func, functionRootPath = ''./functions'', force = False,
         base64Code = Some ''UEsDBA=='', codeSecret = None\<rparr>"
  let ?e = "ex_error ''ResourceInUse.FunctionName'' ''exists''"
  have h1: "validCreateParams (func ?p) (codeSecret ?p) = Inr ()"
    by (simp add: validCreateParams_def ex_func_def)
  have h2: "packageCode ?env (func ?p) (Some (functionRootPath ?p)) (base64Code ?p) []
              = (Inr ''UEsDBA=='', [])"
    by (simp add: packageCode_def)
  have h3: "remote ?env [] ScfService ''CreateFunction''
              (createFunction_params ?env (func ?p) ''UEsDBA=='' (codeSecret ?p)) = Inl ?e"
    by (simp add: ex_env_def platform_conflict_def)
  have h4: "code ?e = Some ''ResourceInUse.FunctionName''" by (simp add: ex_error_def)
  have h5: "\<not> force ?p" by simp
  from conflict_without_force_is_fatal[OF h1 h2 h3 h4 h5]
  obtain e' where r: "createFunction ?env ?p [] =
        Some (Inl e', [] @ [Request ScfService ''CreateFunction''
                        (createFunction_params ?env (func ?p) ''UEsDBA=='' (codeSecret ?p)) (Inl ?e)])"
      and c: "code e' = code ?e" "requestId e' = requestId ?e"
      and m: "if message ?e = [] then e' = ?e
              else message e' = ''['' @ name (func ?p) @ '']'' @ msg_deploy_failed @ message ?e"
    by blast
  have "e' = \<lparr>message = ''[f]'' @ msg_deploy_failed @ ''exists'',
              code = Some ''ResourceInUse.FunctionName'', requestId = Some ''req-1''\<rparr>"
    using c m by (cases e') (simp add: ex_error_def ex_func_def)
  with r h1 h2 h3 show ?thesis by simp
qed

section \<open>Claim C4: the wait for an active function\<close>

text \<open>
  C4: \<open>waitFunctionActive\<close> checks the status with \<open>getFunctionDetail\<close> and sleeps 1000
  milliseconds after every check; it goes on exactly when the status read is \<open>CREATING\<close> or
  \<open>UPDATING\<close>, and on any other status it returns normally, with no error. When the checks
  read \<open>CREATING\<close>, \<open>CREATING\<close> and then a status that is neither, it returns after the
  third check, having made three \<open>GetFunction\<close> requests. No number of checks ends the
  loop: on a platform that always reports \<open>CREATING\<close> it never returns.
\<close>

theorem waitFunctionActive_polls_while_transient:
  "(getFunctionDetail env fname None w = (Inr d, w1) \<longrightarrow>
      waitFunctionActive env fname w =
        (if obj_get d ''Status'' = JStr (SCF_STATUS_CREATING env)
            \<or> obj_get d ''Status'' = JStr (SCF_STATUS_UPDATING env)
         then waitFunctionActive env fname (w1 @ [Sleep 1000])
         else Some (Inr (), w1 @ [Sleep 1000])))
   \<and> (getFunctionDetail env fname None w = (Inr d1, v1)
        \<and> obj_get d1 ''Status'' = JStr (SCF_STATUS_CREATING env)
        \<and> getFunctionDetail env fname None (v1 @ [Sleep 1000]) = (Inr d2, v2)
        \<and> obj_get d2 ''Status'' = JStr (SCF_STATUS_CREATING env)
        \<and> getFunctionDetail env fname None (v2 @ [Sleep 1000]) = (Inr d3, v3)
        \<and> obj_get d3 ''Status'' \<noteq> JStr (SCF_STATUS_CREATING env)
        \<and> obj_get d3 ''Status'' \<noteq> JStr (SCF_STATUS_UPDATING env) \<longrightarrow>
      waitFunctionActive env fname w = Some (Inr (), v3 @ [Sleep 1000])
      \<and> count_action ''GetFunction'' (v3 @ [Sleep 1000]) = count_action ''GetFunction'' w + 3)
   \<and> ((\<forall>w'. \<exists>d' w1'. getFunctionDetail env fname None w' = (Inr d', w1')
              \<and> obj_get d' ''Status'' = JStr (SCF_STATUS_CREATING env)) \<longrightarrow>
      waitFunctionActive env fname w = None)"
proof (intro conjI impI)
  assume "getFunctionDetail env fname None w = (Inr d, w1)"
  then show "waitFunctionActive env fname w =
        (if obj_get d ''Status'' = JStr (SCF_STATUS_CREATING env)
            \<or> obj_get d ''Status'' = JStr (SCF_STATUS_UPDATING env)
         then waitFunctionActive env fname (w1 @ [Sleep 1000])
         else Some (Inr (), w1 @ [Sleep 1000]))"
    by (rule waitFunctionActive_step)
next
  assume h: "getFunctionDetail env fname None w = (Inr d1, v1)
        \<and> obj_get d1 ''Status'' = JStr (SCF_STATUS_CREATING env)
        \<and> getFunctionDetail env fname None (v1 @ [Sleep 1000]) = (Inr d2, v2)
        \<and> obj_get d2 ''Status'' = JStr (SCF_STATUS_CREATING env)
        \<and> getFunctionDetail env fname None (v2 @ [Sleep 1000]) = (Inr d3, v3)
        \<and> obj_get d3 ''Status'' \<noteq> JStr (SCF_STATUS_CREATING env)
        \<and> obj_get d3 ''Status'' \<noteq> JStr (SCF_STATUS_UPDATING env)"
  then show "waitFunctionActive env fname w = Some (Inr (), v3 @ [Sleep 1000])"
    by (simp add: waitFunctionActive_step)
  have c: "count_action ''GetFunction'' (x @ [Sleep 1000]) = count_action ''GetFunction'' x" for x
    by (simp add: count_action_def)
  from h have "count_action ''GetFunction'' v1 = count_action ''GetFunction'' w + 1"
    using getFunctionDetail_count[of env fname None w] by simp
  moreover from h have "count_action ''GetFunction'' v2 = count_action ''GetFunction'' (v1 @ [Sleep 1000]) + 1"
    using getFunctionDetail_count[of env fname None "v1 @ [Sleep 1000]"] by simp
  moreover from h have "count_action ''GetFunction'' v3 = count_action ''GetFunction'' (v2 @ [Sleep 1000]) + 1"
    using getFunctionDetail_count[of env fname None "v2 @ [Sleep 1000]"] by simp
  ultimately show "count_action ''GetFunction'' (v3 @ [Sleep 1000]) = count_action ''GetFunction'' w + 3"
    by (simp add: c)
next
  assume "\<forall>w'. \<exists>d' w1'. getFunctionDetail env fname None w' = (Inr d', w1')
              \<and> obj_get d' ''Status'' = JStr (SCF_STATUS_CREATING env)"
  then show "waitFunctionActive env fname w = None"
    by (rule waitFunctionActive_never_returns)
qed

theorem waitFunctionActive_polls_while_transient_witness:
  "getFunctionDetail (ex_env platform_creating_twice) ''f'' None []
     = (Inr [(''Status'', JStr ''Creating'')], [ex_GetFunction ''Creating''])
   \<and> getFunctionDetail (ex_env platform_creating_twice) ''f'' None
       [ex_GetFunction ''Creating'', Sleep 1000]
     = (Inr [(''Status'', JStr ''Creating'')],
        [ex_GetFunction ''Creating'', Sleep 1000, ex_GetFunction ''Creating''])
   \<and> getFunctionDetail (ex_env platform_creating_twice) ''f'' None
       [ex_GetFunction ''Creating'', Sleep 1000, ex_GetFunction ''Creating'', Sleep 1000]
     = (Inr [(''Status'', JStr ''Active'')],
        [ex_GetFunction ''Creating'', Sleep 1000, ex_GetFunction ''Creating'', Sleep 1000,
         ex_GetFunction ''Active''])
   \<and> waitFunctionActive (ex_env platform_creating_twice) ''f'' []
     = Some (Inr (),
        [ex_GetFunction ''Creating'', Sleep 1000, ex_GetFunction ''Creating'', Sleep 1000,
         ex_GetFunction ''Active'', Sleep 1000])
   \<and> count_action ''GetFunction''
        [ex_GetFunction ''Creating'', Sleep 1000, ex_GetFunction ''Creating'', Sleep 1000,
         ex_GetFunction ''Active'', Sleep 1000] = 3
   \<and> waitFunctionActive (ex_env platform_always_creating) ''f'' [] = None"
proof -
  let ?E = "ex_env platform_creating_twice"
  let ?A = "ex_env platform_always_creating"
  let ?c = "[(''Status'', JStr ''Creating'')]"
  let ?a = "[(''Status'', JStr ''Active'')]"
  let ?v1 = "[ex_GetFunction ''Creating'']"
  let ?v2 = "[ex_GetFunction ''Creating'', Sleep 1000, ex_GetFunction ''Creating'']"
  let ?v3 = "[ex_GetFunction ''Creating'', Sleep 1000, ex_GetFunction ''Creating'', Sleep 1000,
              ex_GetFunction ''Active'']"
  have g1: "getFunctionDetail ?E ''f'' None [] = (Inr ?c, ?v1)" by code_simp
  have g2: "getFunctionDetail ?E ''f'' None (?v1 @ [Sleep 1000]) = (Inr ?c, ?v2)" by code_simp
  have g3: "getFunctionDetail ?E ''f'' None (?v2 @ [Sleep 1000]) = (Inr ?a, ?v3)" by code_simp
  have s: "obj_get ?c ''Status'' = JStr (SCF_STATUS_CREATING ?E)"
    "obj_get ?a ''Status'' \<noteq> JStr (SCF_STATUS_CREATING ?E)"
    "obj_get ?a ''Status'' \<noteq> JStr (SCF_STATUS_UPDATING ?E)"
    by (simp_all add: obj_get_def ex_env_def)
  have always: "\<forall>w'. \<exists>d' w1'. getFunctionDetail ?A ''f'' None w' = (Inr d', w1')
                  \<and> obj_get d' ''Status'' = JStr (SCF_STATUS_CREATING ?A)"
    by (simp add: getFunctionDetail_def request_def Let_def ex_env_def platform_always_creating_def
        validKeys_def vpcField_def obj_get_def)
  from waitFunctionActive_polls_while_transient
    [where env = ?E and fname = "''f''" and w = "[]" and ?d1.0 = ?c and ?v1.0 = ?v1
       and ?d2.0 = ?c and ?v2.0 = ?v2 and ?d3.0 = ?a and ?v3.0 = ?v3]
    g1 g2 g3 s
  have three: "waitFunctionActive ?E ''f'' [] = Some (Inr (), ?v3 @ [Sleep 1000])"
    "count_action ''GetFunction'' (?v3 @ [Sleep 1000]) = count_action ''GetFunction'' [] + 3"
    by simp_all
  from waitFunctionActive_polls_while_transient[where env = ?A and fname = "''f''" and w = "[]"]
    always
  have never: "waitFunctionActive ?A ''f'' [] = None" by blast
  from g1 g2 g3 three never show ?thesis by (simp add: count_action_def)
qed

section \<open>Claim C5: when the wait for an active function is entered\<close>

text \<open>
  C5 on the code: the guard of the wait reads the string \<open>'TRUE'\<close> or \<open>'FALSE'\<close>, and both
  are truthy (\<open>installDependencyOf_nonempty\<close>), so the wait is entered whenever
  \<open>isWaitInstall\<close> is \<open>true\<close>. For a Php7 function with \<open>installDependency: false\<close> and
  \<open>isWaitInstall: true\<close>, \<open>createFunction\<close> and \<open>updateFunctionCode\<close> both send
  \<open>InstallDependency = 'FALSE'\<close>, and both go on to poll \<open>GetFunction\<close> and to sleep one
  second.
\<close>

theorem wait_entered_without_installDependency:
  "createFunction (ex_env platform_ok)
      \<lparr>func = ex_func\<lparr>runtime := Some ''Php7'', installDependency := Some False,
                        isWaitInstall := Some True\<rparr>,
       functionRootPath = ''./functions'', force = False,
       base64Code = Some ''UEsDBA=='', codeSecret = None\<rparr> []
     = Some (Inr (ResponseInfo [(''RequestId'', JStr ''r'')]),
        [Request ScfService ''CreateFunction''
           [(''FunctionName'', JStr ''f''), (''Namespace'', JStr ''ns''),
            (''Code'', JObj [(''ZipFile'', JStr ''UEsDBA=='')]), (''MemorySize'', JNum 256),
            (''Role'', JStr ''TCB_QcsRole''), (''Stamp'', JStr ''MINI_QCBASE''),
            (''L5Enable'', JNull), (''Handler'', JStr ''index.main''), (''Timeout'', JNum 20),
            (''Runtime'', JStr ''Php7''),
            (''VpcConfig'', JObj [(''SubnetId'', JStr []), (''VpcId'', JStr [])]),
            (''InstallDependency'', JStr ''FALSE''),
            (''EipConfig'', JObj [(''EipFixed'', JStr ''FALSE'')])]
           (Inr [(''RequestId'', JStr ''r'')]),
         Request ScfService ''GetFunction''
           [(''FunctionName'', JStr ''f''), (''Namespace'', JStr ''ns''), (''ShowCode'', JStr ''TRUE'')]
           (Inr [(''Status'', JStr ''Active'')]),
         Sleep 1000])
   \<and> updateFunctionCode (ex_env platform_ok)
      \<lparr>u_func = ex_func\<lparr>runtime := Some ''Php7'', installDependency := Some False,
                          isWaitInstall := Some True\<rparr>,
       u_functionRootPath = None, u_base64Code = Some ''UEsDBA=='', u_codeSecret = None\<rparr> []
     = Some (Inr [(''RequestId'', JStr ''r'')],
        [Request ScfService ''UpdateFunctionCode''
           [(''FunctionName'', JStr ''f''), (''Namespace'', JStr ''ns''),
            (''ZipFile'', JStr ''UEsDBA==''), (''Handler'', JStr ''index.main''),
            (''InstallDependency'', JStr ''FALSE'')]
           (Inr [(''RequestId'', JStr ''r'')]),
         Request ScfService ''GetFunction''
           [(''FunctionName'', JStr ''f''), (''Namespace'', JStr ''ns''), (''ShowCode'', JStr ''TRUE'')]
           (Inr [(''Status'', JStr ''Active'')]),
         Sleep 1000])"
  by code_simp

section \<open>Claim C6: validation before any effect\<close>

text \<open>
  C6 on the code: \<open>createFunction\<close> validates the runtime and the code secret and fails with
  the world untouched (\<open>createFunction_fails_fast\<close>); \<open>updateFunctionCode\<close> and
  \<open>updateFunctionIncrementalCode\<close> validate the runtime in the same way
  (\<open>updateFunctionCode_fails_fast_on_runtime\<close>,
  \<open>updateFunctionIncrementalCode_fails_fast_on_runtime\<close>). But \<open>updateFunctionCode\<close> calls
  the validation without its code secret: a secret that does not match the pattern is sent
  to the platform in the \<open>UpdateFunctionCode\<close> request, where \<open>createFunction\<close> with the
  same secret fails before any effect.
\<close>

theorem updateFunctionCode_sends_malformed_codeSecret:
  "\<not> codeSecret_test ''bad secret!''
   \<and> updateFunctionCode (ex_env platform_ok)
       \<lparr>u_func = ex_func, u_functionRootPath = None, u_base64Code = Some ''UEsDBA=='',
        u_codeSecret = Some ''bad secret!''\<rparr> []
     = Some (Inr [(''RequestId'', JStr ''r'')],
        [Request ScfService ''UpdateFunctionCode''
           [(''FunctionName'', JStr ''f''), (''Namespace'', JStr ''ns''),
            (''ZipFile'', JStr ''UEsDBA==''), (''Handler'', JStr ''index.main''),
            (''InstallDependency'', JStr ''FALSE''), (''CodeSecret'', JStr ''bad secret!'')]
           (Inr [(''RequestId'', JStr ''r'')])])
   \<and> createFunction (ex_env platform_ok)
       \<lparr>func = ex_func, functionRootPath = ''./functions'', force = False,
        base64Code = Some ''UEsDBA=='', codeSecret = Some ''bad secret!''\<rparr> []
     = Some (Inl (newCloudBaseError msg_codeSecret_format), [])"
  by code_simp

section \<open>Claim C7: the environment variables in the requests\<close>




section \<open>Claim C8: a failed VPC lookup in \<open>getFunctionDetail\<close>\<close>

text \<open>
  C8: when \<open>GetFunction\<close> has answered with a VPC id and a subnet id and the lookup of the
  VPC information then fails, whatever the error, \<open>getFunctionDetail\<close> does not raise: it
  returns the detail record, with the empty result \<open>{vpc: '', subnet: ''}\<close> stored in it
  (under the key \<open>VPC\<close>) and every other key as \<open>GetFunction\<close> gave it. The lemma
  \<open>lookupVpc_query_fails\<close> shows that a failing VPC query and a failing subnet query are
  such failures.
\<close>

theorem getFunctionDetail_absorbs_vpc_failure:
  assumes "remote env w ScfService ''GetFunction'' (getFunctionDetail_params env fname secret) = Inr res"
    and "data = filter (\<lambda>kv. fst kv \<in> set validKeys) res"
    and "truthy (vpcField data ''VpcId'')" and "truthy (vpcField data ''SubnetId'')"
    and "lookupVpc env (vpcField data ''VpcId'') (vpcField data ''SubnetId'')
           (w @ [Request ScfService ''GetFunction'' (getFunctionDetail_params env fname secret)
                   (Inr res)]) = (Inl e, w2)"
  shows "\<exists>detail. getFunctionDetail env fname secret w = (Inr detail, w2)
           \<and> obj_get detail ''VPC'' = JObj [(''vpc'', JStr []), (''subnet'', JStr [])]
           \<and> (\<forall>k. k \<noteq> ''VPC'' \<longrightarrow> obj_get detail k = obj_get data k)"
  using assms
  by (simp add: getFunctionDetail_def request_def Let_def obj_get_obj_set)


theorem getFunctionDetail_absorbs_vpc_failure_witness:
  "remote (ex_env platform_subnet_down) [] ScfService ''GetFunction''
       (getFunctionDetail_params (ex_env platform_subnet_down) ''f'' None)
     = Inr [(''Status'', JStr ''Active''), (''RequestId'', JStr ''r''),
            (''VpcConfig'', JObj [(''VpcId'', JStr ''vpc-1''), (''SubnetId'', JStr ''subnet-1'')])]
   \<and> lookupVpc (ex_env platform_subnet_down) (JStr ''vpc-1'') (JStr ''subnet-1'')
        [Request ScfService ''GetFunction''
           [(''FunctionName'', JStr ''f''), (''Namespace'', JStr ''ns''), (''ShowCode'', JStr ''TRUE'')]
           (Inr [(''Status'', JStr ''Active''), (''RequestId'', JStr ''r''),
                 (''VpcConfig'', JObj [(''VpcId'', JStr ''vpc-1''), (''SubnetId'', JStr ''subnet-1'')])])]
     = (Inl (ex_error ''InternalError'' ''service unavailable''),
        [Request ScfService ''GetFunction''
           [(''FunctionName'', JStr ''f''), (''Namespace'', JStr ''ns''), (''ShowCode'', JStr ''TRUE'')]
           (Inr [(''Status'', JStr ''Active''), (''RequestId'', JStr ''r''),
                 (''VpcConfig'', JObj [(''VpcId'', JStr ''vpc-1''), (''SubnetId'', JStr ''subnet-1'')])]),
         Request VpcService ''DescribeVpcs'' []
           (Inr [(''VpcSet'', JArr [JObj [(''VpcId'', JStr ''vpc-1'')]])]),
         Request VpcService ''DescribeSubnets''
           [(''Filters'', JArr [JObj [(''Name'', JStr ''vpc-id''), (''Values'', JArr [JStr ''vpc-1''])]])]
           (Inl (ex_error ''InternalError'' ''service unavailable''))])
   \<and> (\<exists>detail. getFunctionDetail (ex_env platform_subnet_down) ''f'' None [] =
        (Inr detail,
         [Request ScfService ''GetFunction''
            [(''FunctionName'', JStr ''f''), (''Namespace'', JStr ''ns''), (''ShowCode'', JStr ''TRUE'')]
            (Inr [(''Status'', JStr ''Active''), (''RequestId'', JStr ''r''),
                  (''VpcConfig'', JObj [(''VpcId'', JStr ''vpc-1''), (''SubnetId'', JStr ''subnet-1'')])]),
          Request VpcService ''DescribeVpcs'' []
            (Inr [(''VpcSet'', JArr [JObj [(''VpcId'', JStr ''vpc-1'')]])]),
          Request VpcService ''DescribeSubnets''
            [(''Filters'', JArr [JObj [(''Name'', JStr ''vpc-id''), (''Values'', JArr [JStr ''vpc-1''])]])]
            (Inl (ex_error ''InternalError'' ''service unavailable''))])
        \<and> obj_get detail ''VPC'' = JObj [(''vpc'', JStr []), (''subnet'', JStr [])]
        \<and> obj_get detail ''Status'' = JStr ''Active'')"
proof -
  let ?env = "ex_env platform_subnet_down"
  let ?res = "[(''Status'', JStr ''Active''), (''RequestId'', JStr ''r''),
               (''VpcConfig'', JObj [(''VpcId'', JStr ''vpc-1''), (''SubnetId'', JStr ''subnet-1'')])]"
  let ?data = "[(''Status'', JStr ''Active''),
                (''VpcConfig'', JObj [(''VpcId'', JStr ''vpc-1''), (''SubnetId'', JStr ''subnet-1'')])]"
  let ?params = "[(''FunctionName'', JStr ''f''), (''Namespace'', JStr ''ns''), (''ShowCode'', JStr ''TRUE'')]"
  let ?w2 = "[Request ScfService ''GetFunction'' ?params (Inr ?res),
         Request VpcService ''DescribeVpcs'' []
           (Inr [(''VpcSet'', JArr [JObj [(''VpcId'', JStr ''vpc-1'')]])]),
         Request VpcService ''DescribeSubnets''
           [(''Filters'', JArr [JObj [(''Name'', JStr ''vpc-id''), (''Values'', JArr [JStr ''vpc-1''])]])]
           (Inl (ex_error ''InternalError'' ''service unavailable''))]"
  have p: "getFunctionDetail_params ?env ''f'' None = ?params"
    by (simp add: getFunctionDetail_params_def ex_env_def)
  have h1: "remote ?env [] ScfService ''GetFunction'' (getFunctionDetail_params ?env ''f'' None) = Inr ?res"
    by (simp add: ex_env_def platform_subnet_down_def)
  have h2: "?data = filter (\<lambda>kv. fst kv \<in> set validKeys) ?res"
    by (simp add: validKeys_def)
  have v: "vpcField ?data ''VpcId'' = JStr ''vpc-1''" "vpcField ?data ''SubnetId'' = JStr ''subnet-1''"
    by (simp_all add: vpcField_def obj_get_def)
  have h3: "truthy (vpcField ?data ''VpcId'')" and h4: "truthy (vpcField ?data ''SubnetId'')"
    by (simp_all add: v)
  have l: "lookupVpc ?env (JStr ''vpc-1'') (JStr ''subnet-1'')
             [Request ScfService ''GetFunction'' ?params (Inr ?res)]
           = (Inl (ex_error ''InternalError'' ''service unavailable''), ?w2)"
    by code_simp
  have h5: "lookupVpc ?env (vpcField ?data ''VpcId'') (vpcField ?data ''SubnetId'')
             ([] @ [Request ScfService ''GetFunction'' (getFunctionDetail_params ?env ''f'' None) (Inr ?res)])
           = (Inl (ex_error ''InternalError'' ''service unavailable''), ?w2)"
    using l by (simp add: v p)
  from getFunctionDetail_absorbs_vpc_failure[OF h1 h2 h3 h4 h5]
  obtain detail where d: "getFunctionDetail ?env ''f'' None [] = (Inr detail, ?w2)"
      "obj_get detail ''VPC'' = JObj [(''vpc'', JStr []), (''subnet'', JStr [])]"
      "\<forall>k. k \<noteq> ''VPC'' \<longrightarrow> obj_get detail k = obj_get ?data k"
    by blast
  from d(3) have "obj_get detail ''Status'' = JStr ''Active''"
    by (simp add: obj_get_def)
  with d(1,2) h1 l show ?thesis by blast
qed

section \<open>Claim C9: creating no triggers\<close>

text \<open>
  C9, as the code has it: \<open>createFunctionTriggers\<close> with an absent or an empty trigger
  list is a no-op. It returns \<open>null\<close>, raises nothing and leaves the world as it was (no
  request is made). It is not the only condition that is absorbed: see the counterexample
  below, where \<open>getFunctionDetail\<close> absorbs a failed VPC query.
\<close>

theorem createFunctionTriggers_empty_is_noop:
  "createFunctionTriggers env fname None w = (Inr None, w)
   \<and> createFunctionTriggers env fname (Some []) w = (Inr None, w)"
  by (simp add: createFunctionTriggers_def)

text \<open>
  The claim's last part, that the empty trigger list is the only condition absorbed rather
  than surfaced, fails: with the VPC service down, \<open>getFunctionDetail\<close> makes a request
  that fails and still returns a detail record.
\<close>

theorem vpc_failure_absorbed_counterexample:
  "getFunctionDetail (ex_env platform_vpc_down) ''f'' None [] =
     (Inr [(''Status'', JStr ''Active''),
           (''VpcConfig'', JObj [(''VpcId'', JStr ''vpc-1''), (''SubnetId'', JStr ''subnet-1'')]),
           (''VPC'', JObj [(''vpc'', JStr []), (''subnet'', JStr [])])],
      [Request ScfService ''GetFunction''
         [(''FunctionName'', JStr ''f''), (''Namespace'', JStr ''ns''), (''ShowCode'', JStr ''TRUE'')]
         (Inr [(''Status'', JStr ''Active''),
               (''VpcConfig'', JObj [(''VpcId'', JStr ''vpc-1''), (''SubnetId'', JStr ''subnet-1'')])]),
       Request VpcService ''DescribeVpcs'' []
         (Inl \<lparr>message = ''service unavailable'', code = Some ''InternalError'',
               requestId = Some ''req-1''\<rparr>)])"
  by code_simp

section \<open>Claim C10: \<open>node_modules\<close> in the ignore list\<close>

text \<open>
  C10 on the code: without a \<open>base64Code\<close> the packer is the first thing \<open>createFunction\<close>
  and \<open>updateFunctionCode\<close> run once the validation has passed, and its ignore list is the
  spread \<open>[...(func.ignore || [])]\<close>, with \<open>node_modules/**/*\<close> and \<open>node_modules\<close> in front when
  the effective \<open>installDependency\<close> is \<open>TRUE\<close> (\<open>packer_runs_first_with_ignoreOf\<close>). For a
  list of patterns the spread is the caller's list. But \<open>ignore\<close> is declared
  \<open>string | string[]\<close>, and the spread of a string is its characters: for the Nodejs8.9
  function that ignores \<open>*.md\<close>, \<open>createFunction\<close> gives the packer the two
  \<open>node_modules\<close> patterns followed by \<open>*\<close>, \<open>.\<close>, \<open>m\<close> and \<open>d\<close>, and \<open>updateFunctionCode\<close>
  with \<open>installDependency: false\<close> gives it those four characters alone. The caller's
  pattern \<open>*.md\<close> is in neither list.
\<close>

theorem string_ignore_spread_into_characters:
  "createFunction (ex_env platform_ok)
      \<lparr>func = ex_func\<lparr>runtime := Some ''Nodejs8.9'', ignore := Some (IgnoreString ''*.md'')\<rparr>,
       functionRootPath = ''./functions'', force = False, base64Code = None, codeSecret = None\<rparr> []
     = Some (Inr (ResponseInfo [(''RequestId'', JStr ''r'')]),
        [Build (Some ''./functions'') ''f''
           [''node_modules/**/*'', ''node_modules'', ''*'', ''.'', ''m'', ''d''] None File
           (Inr (Some ''UEsDBA=='')),
         Request ScfService ''CreateFunction''
           [(''FunctionName'', JStr ''f''), (''Namespace'', JStr ''ns''),
            (''Code'', JObj [(''ZipFile'', JStr ''UEsDBA=='')]), (''MemorySize'', JNum 256),
            (''Role'', JStr ''TCB_QcsRole''), (''Stamp'', JStr ''MINI_QCBASE''),
            (''L5Enable'', JNull), (''Handler'', JStr ''index.main''), (''Timeout'', JNum 20),
            (''Runtime'', JStr ''Nodejs8.9''),
            (''VpcConfig'', JObj [(''SubnetId'', JStr []), (''VpcId'', JStr [])]),
            (''InstallDependency'', JStr ''TRUE''),
            (''EipConfig'', JObj [(''EipFixed'', JStr ''FALSE'')])]
           (Inr [(''RequestId'', JStr ''r'')])])
   \<and> updateFunctionCode (ex_env platform_ok)
      \<lparr>u_func = ex_func\<lparr>runtime := Some ''Nodejs8.9'', installDependency := Some False,
                          ignore := Some (IgnoreString ''*.md'')\<rparr>,
       u_functionRootPath = Some ''./functions'', u_base64Code = None, u_codeSecret = None\<rparr> []
     = Some (Inr [(''RequestId'', JStr ''r'')],
        [Build (Some ''./functions'') ''f'' [''*'', ''.'', ''m'', ''d''] None File
           (Inr (Some ''UEsDBA=='')),
         Request ScfService ''UpdateFunctionCode''
           [(''FunctionName'', JStr ''f''), (''Namespace'', JStr ''ns''),
            (''ZipFile'', JStr ''UEsDBA==''), (''Handler'', JStr ''index.main''),
            (''InstallDependency'', JStr ''FALSE'')]
           (Inr [(''RequestId'', JStr ''r'')])])"
  by code_simp

end
